theory Spec2Isabelle
  imports Main "HOL-Library.Word" "HOL-Library.Signed_Division"
begin

section \<open>Common types of the tracker\<close>

text \<open>
  The ChibiOS kernel headers are not among the sources. Its tick counter
  \<^verbatim>\<open>systime_t\<close> and its interval type \<^verbatim>\<open>sysinterval_t\<close> are unsigned machine
  words of the kernel's 32-bit time resolution; subtraction and addition wrap around.
\<close>

type_synonym systime_t = "32 word"
type_synonym sysinterval_t = "32 word"

text \<open>
  Modelled from the spec: \<^verbatim>\<open>TIME_S2I\<close> is a macro of the missing kernel headers. It
  turns seconds into system ticks; the tick frequency \<^verbatim>\<open>CH_CFG_ST_FREQUENCY\<close> is a
  parameter of the model.
\<close>

definition TIME_S2I :: "sysinterval_t \<Rightarrow> sysinterval_t \<Rightarrow> sysinterval_t" where
  "TIME_S2I st_frequency secs = secs * st_frequency"

text \<open>
  Modelled from the spec: the frequency descriptor is a variant, a static frequency in
  Hz or the dynamic APRS-regional kind (\<^verbatim>\<open>FREQ_APRS_DYNAMIC\<close> in \<^verbatim>\<open>config.c\<close>); the
  modulation is a tagged variant over AFSK 1200 and 2FSK 9600. Their declarations
  (\<^verbatim>\<open>config.h\<close>) are not among the sources.
\<close>

datatype radio_freq_t = FREQ_APRS_DYNAMIC | FREQ_HZ "32 word"

datatype mod_t = MOD_AFSK | MOD_2FSK

datatype aprs_sym_t = SYM_BALLOON | SYM_CODE "16 word"

section \<open>The compiled default configuration (\<^verbatim>\<open>config.c\<close>)\<close>

record thread_conf_t =
  active :: bool
  cycle :: sysinterval_t

record radio_conf_t =
  pwr :: "8 word"
  freq :: radio_freq_t
  mod_r :: mod_t
  preamble :: "16 word"

record thd_pos_conf_t =
  thread_conf :: thread_conf_t
  radio_conf :: radio_conf_t
  call :: string
  path :: string
  symbol :: aprs_sym_t
  tel_enc_cycle :: sysinterval_t

record conf_t =
  pos_pri :: thd_pos_conf_t
  pos_sec :: thd_pos_conf_t
  rssi :: "8 word"
  dig_active :: bool
  keep_cam_switched_on :: bool
  gps_on_vbat :: "16 word"
  gps_off_vbat :: "16 word"
  gps_onper_vbat :: "16 word"

text \<open>
  The initialiser of \<^verbatim>\<open>config\<close>: the two position threads and the scalar settings.
  (The image, log and receiver entries are not needed by any statement below.)
\<close>

definition config :: "sysinterval_t \<Rightarrow> conf_t" where
  "config st_frequency =
    \<lparr> pos_pri =
        \<lparr> thread_conf = \<lparr> active = True, cycle = TIME_S2I st_frequency 120 \<rparr>,
          radio_conf = \<lparr> pwr = 0x7F, freq = FREQ_APRS_DYNAMIC, mod_r = MOD_AFSK,
                         preamble = 200 \<rparr>,
          call = ''DL7AD-12'',
          path = ''WIDE1-1'',
          symbol = SYM_BALLOON,
          tel_enc_cycle = TIME_S2I st_frequency 10800 \<rparr>,
      pos_sec =
        \<lparr> thread_conf = \<lparr> active = False, cycle = TIME_S2I st_frequency 120 \<rparr>,
          radio_conf = \<lparr> pwr = 0x7F, freq = FREQ_APRS_DYNAMIC, mod_r = MOD_AFSK,
                         preamble = 200 \<rparr>,
          call = ''DL7AD-12'',
          path = ''WIDE1-1'',
          symbol = SYM_BALLOON,
          tel_enc_cycle = TIME_S2I st_frequency 10800 \<rparr>,
      rssi = 0x4F,
      dig_active = False,
      keep_cam_switched_on = False,
      gps_on_vbat = 5000,
      gps_off_vbat = 5000,
      gps_onper_vbat = 5000 \<rparr>"

section \<open>The data point (\<^verbatim>\<open>collector.h\<close>)\<close>

datatype gpsState_t =
    GPS_LOCKED1 | GPS_LOCKED2 | GPS_LOSS | GPS_LOWBATT1 | GPS_LOWBATT2
  | GPS_LOG | GPS_OFF | GPS_ERROR | GPS_FIXED

text \<open>
  The struct \<^verbatim>\<open>dataPoint_t\<close>, field by field. The signed fields (\<^verbatim>\<open>int16_t\<close>,
  \<^verbatim>\<open>int32_t\<close>) are words read with \<open>sint\<close>. The field \<^verbatim>\<open>id\<close> is named \<open>id_dp\<close>.
\<close>

record dataPoint_t =
  adc_vsol :: "16 word"
  adc_vbat :: "16 word"
  pac_vsol :: "16 word"
  pac_vbat :: "16 word"
  pac_pbat :: "16 word"
  pac_psol :: "16 word"
  light_intensity :: "16 word"
  gps_state :: gpsState_t
  gps_sats :: "8 word"
  gps_ttff :: "8 word"
  gps_pdop :: "8 word"
  gps_alt :: "16 word"
  gps_lat :: "32 word"
  gps_lon :: "32 word"
  sen_i1_press :: "32 word"
  sen_e1_press :: "32 word"
  sen_e2_press :: "32 word"
  sen_i1_temp :: "16 word"
  sen_e1_temp :: "16 word"
  sen_e2_temp :: "16 word"
  sen_i1_hum :: "8 word"
  sen_e1_hum :: "8 word"
  sen_e2_hum :: "8 word"
  dummy2 :: "8 word"
  stm32_temp :: "16 word"
  si446x_temp :: "16 word"
  reset :: "16 word"
  id_dp :: "32 word"
  gps_time :: "32 word"
  sys_time :: "32 word"
  sys_error :: "32 word"
  gpio :: "8 word"

definition hasGPSacquiredLock :: "dataPoint_t \<Rightarrow> bool" where
  "hasGPSacquiredLock tp = (gps_state tp = GPS_LOCKED1 \<or> gps_state tp = GPS_LOCKED2)"

subsection \<open>The sensor status macros\<close>

text \<open>
  The object-like macros of \<^verbatim>\<open>collector.h\<close> for the BME280 status fields of
  \<^verbatim>\<open>sys_error\<close>, each with its replacement list as the header writes it, token by
  token. The comment at \<^verbatim>\<open>sys_error\<close> documents bits 8:9 for BMEi1, 10:11 for BMEe1
  and 12:13 for BMEe2.
\<close>

datatype token = Ident string | Num nat | Plus | Shl | LParen | RParen

definition collector_macros :: "(string \<times> token list) list" where
  "collector_macros =
    [(''BME_STATUS_BITS'', [Num 2]),
     (''BME_STATUS_MASK'', [Num 0x3]),
     (''BME_OK_VALUE'', [Num 0x0]),
     (''BME_FAIL_VALUE'', [Num 0x1]),
     (''BME_NOT_FITTED_VALUE'', [Num 0x2]),
     (''BME_ALL_STATUS_MASK'', [Num 0x3F]),
     (''BME_ALL_STATUS_SHIFT'', [Num 8]),
     (''BMEI1_STATUS_SHIFT'', [Ident ''BME_ALL_STATUS_SHIFT'']),
     (''BMEI1_STATUS_MASK'',
        [LParen, Ident ''BME_STATUS_MASK'', Shl, Ident ''BMEI1_STATUS_SHIFT'', RParen]),
     (''BMEE1_STATUS_SHIFT'', [Ident ''BMEI1_STATUS_SHIFT'', Plus, Ident ''BME_STATUS_BITS'']),
     (''BMEE1_STATUS_MASK'',
        [LParen, Ident ''BME_STATUS_MASK'', Shl, Ident ''BMEE1_STATUS_SHIFT'', RParen]),
     (''BMEE2_STATUS_SHIFT'',
        [Ident ''BMEI1_STATUS_SHIFT'', Plus, Ident ''BME_STATUS'', RParen, Ident ''BITS'']),
     (''BMEE2_STATUS_MASK'',
        [LParen, Ident ''BME_STATUS_MASK'', Shl, Ident ''BMEE2_STATUS_SHIFT'', RParen])]"

text \<open>
  Macro replacement as the preprocessor does it: an identifier that names a macro is
  replaced by its list, which is scanned again (to the given depth); any other token
  stays.
\<close>

fun expand :: "nat \<Rightarrow> token list \<Rightarrow> token list" where
  "expand 0 ts = ts"
| "expand (Suc n) [] = []"
| "expand (Suc n) (Ident x # ts) =
    (case map_of collector_macros x of
       Some body \<Rightarrow> expand n body @ expand (Suc n) ts
     | None \<Rightarrow> Ident x # expand (Suc n) ts)"
| "expand (Suc n) (t # ts) = t # expand (Suc n) ts"

text \<open>
  The value of a sum of integer constants; a token list of any other shape is not such
  a sum and has no value.
\<close>

fun sum_value :: "token list \<Rightarrow> nat option" where
  "sum_value [Num a] = Some a"
| "sum_value (Num a # Plus # ts) = map_option ((+) a) (sum_value ts)"
| "sum_value ts = None"

definition shift_value :: "string \<Rightarrow> nat option" where
  "shift_value x = sum_value (expand 4 [Ident x])"

section \<open>The debug console commands\<close>

text \<open>
  A console command writes to its stream with \<^verbatim>\<open>chprintf\<close> and may hand a packet to the
  radio. Both are events of the command's run, in program order. A format string is kept
  without the carriage return and line feed that end every one of them; the arguments
  are the values the C expressions compute.
\<close>

datatype parg = I int | S string | P "32 word"

text \<open>
  Modelled from the spec: \<^verbatim>\<open>aprs_encode_message\<close> and \<^verbatim>\<open>transmitOnRadio\<close> are not among
  the sources. A message packet is represented by the arguments of the encoder call
  (the index of the configuration entry whose \<^verbatim>\<open>aprs_conf\<close> is passed by address, the
  destination, the text, the acknowledgment flag); a transmission by the arguments of
  \<^verbatim>\<open>transmitOnRadio\<close> (the packet, the index of the configuration entry whose frequency
  descriptor is passed by address, the power, the modulation).
\<close>

datatype cli_packet = Aprs_message "8 word" string string bool

datatype cli_event =
    Chprintf string "parg list"
  | Cli_transmitOnRadio cli_packet "8 word" "8 word" mod_t

text \<open>The global \<^verbatim>\<open>debug_on_usb\<close> is the program state the commands can change.\<close>

record cli_state =
  debug_on_usb :: bool

text \<open>
  The shell passes \<^verbatim>\<open>argc\<close> and the array \<^verbatim>\<open>argv\<close>; C indexes the array without a
  bound, so \<^verbatim>\<open>argv\<close> is a function of the index. \<^verbatim>\<open>atoi\<close> belongs to the C library
  and is a parameter. Assigning its \<^verbatim>\<open>int\<close> to the \<^verbatim>\<open>bool\<close> tests it against zero.
\<close>

definition debugOnUSB ::
  "(string \<Rightarrow> int) \<Rightarrow> cli_state \<Rightarrow> int \<Rightarrow> (nat \<Rightarrow> string) \<Rightarrow> cli_state \<times> cli_event list" where
  "debugOnUSB atoi st argc argv =
    (if argc < 1
     then (st, [Chprintf ''Argument missing!'' [],
                Chprintf ''Argument 1: 1 for switch on, 0 for switch off'' []])
     else (st\<lparr>debug_on_usb := (atoi (argv 0) \<noteq> 0)\<rparr>, []))"

definition send_aprs_message ::
  "cli_state \<Rightarrow> int \<Rightarrow> (nat \<Rightarrow> string) \<Rightarrow> cli_state \<times> cli_event list" where
  "send_aprs_message st argc argv =
    (if argc < 2
     then (st, [Chprintf ''Argument missing!'' [],
                Chprintf ''Argument 1: Destination'' [],
                Chprintf ''Argument 2: Message'' []])
     else (st, [Chprintf ''Destination: %s'' [S (argv 0)],
                Chprintf ''Message: %s'' [S (argv 1)],
                Cli_transmitOnRadio (Aprs_message 2 (argv 0) (argv 1) False) 2 127 MOD_AFSK,
                Chprintf ''Message sent!'' []]))"

subsection \<open>\<^verbatim>\<open>printConfig\<close>\<close>

text \<open>
  Modelled from the spec: the entries of the table \<^verbatim>\<open>config[]\<close> that \<^verbatim>\<open>printConfig\<close>
  reads are declared in a header that is not among the sources. An entry holds the
  fields the command prints; its frequency descriptor has a kind (static or dynamic) and
  a frequency in Hz. The table is indexed by an unsigned byte without a bound.
  \<^verbatim>\<open>getFrequency\<close>, the region resolution, is a parameter.
\<close>

datatype freq_type_t = FREQ_STATIC | FREQ_DYNAMIC

record freq_conf_t =
  ftype :: freq_type_t
  hz :: "32 word"

record module_conf_t =
  power :: "8 word"
  frequency :: freq_conf_t
  modulation :: "8 word"
  init_delay :: "32 word"
  packet_spacing :: "32 word"
  wdg_timeout :: "32 word"

text \<open>The frequency block of \<^verbatim>\<open>printConfig\<close>; the division is the unsigned one of C.\<close>

definition printConfig_frequency ::
  "(freq_conf_t \<Rightarrow> 32 word) \<Rightarrow> freq_conf_t \<Rightarrow> cli_event list" where
  "printConfig_frequency getFrequency fc =
    (if ftype fc = FREQ_STATIC
     then (let freq = hz fc in
           if (freq div 1000) * 1000 = freq
           then [Chprintf ''Frequency: %d.%03d MHz''
                   [I (uint (freq div 1000000)), I (uint ((freq mod 1000000) div 1000))]]
           else [Chprintf ''Frequency: %d.%03d MHz''
                   [I (uint (freq div 1000000)), I (uint (freq mod 1000000))]])
     else (let freq = getFrequency fc in
           [Chprintf ''Frequency: APRS region dependent (currently %d.%03d MHz)''
              [I (uint (freq div 1000000)), I (uint ((freq mod 1000000) div 1000))]]))"

definition printConfig ::
  "(string \<Rightarrow> int) \<Rightarrow> (freq_conf_t \<Rightarrow> 32 word) \<Rightarrow> (8 word \<Rightarrow> module_conf_t)
    \<Rightarrow> cli_state \<Rightarrow> int \<Rightarrow> (nat \<Rightarrow> string) \<Rightarrow> cli_state \<times> cli_event list" where
  "printConfig atoi getFrequency config_tab st argc argv =
    (if argc < 1
     then (st, [Chprintf ''Argument missing!'' [],
                Chprintf ''Argument 1: Id of config'' []])
     else (let ident = (word_of_int (atoi (argv 0)) :: 8 word); c = config_tab ident in
           (st, [Chprintf ''Config ID=%d'' [I (uint ident)],
                 Chprintf ''Power: %d'' [I (uint (power c))]]
                @ printConfig_frequency getFrequency (frequency c)
                @ [Chprintf ''Modulation: %d'' [I (uint (modulation c))],
                   Chprintf ''Initial Delay: %d'' [I (uint (init_delay c))],
                   Chprintf ''Packet Spacing: %d'' [I (uint (packet_spacing c))],
                   Chprintf ''Sleep config: xx'' [],
                   Chprintf ''Trigger config: xx'' [],
                   Chprintf ''Modulation config: xx'' [],
                   Chprintf ''Protocol config: xx'' [],
                   Chprintf ''SSDV config: xx'' [],
                   Chprintf ''Watchdog timeout: %d'' [I (uint (wdg_timeout c))]])))"

subsection \<open>\<^verbatim>\<open>readLog\<close>\<close>

text \<open>
  Modelled from the spec: \<^verbatim>\<open>trackPoint_t\<close> is declared in a header that is not among
  the sources. A log record is the packed data point, so it is taken to be the
  \<^verbatim>\<open>dataPoint_t\<close> of \<^verbatim>\<open>collector.h\<close>, which has every field \<^verbatim>\<open>readLog\<close> prints; its
  \<^verbatim>\<open>id\<close> is the sentinel field, \<^verbatim>\<open>0xFFFFFFFF\<close> in an erased slot.
\<close>

type_synonym trackPoint_t = dataPoint_t

text \<open>
  The record line. Latitude, longitude, battery power and temperature are signed
  (\<open>sint\<close>), the rest unsigned; \<open>sdiv\<close> and \<open>smod\<close> truncate towards zero as C does, and
  \<^verbatim>\<open>a * b % c\<close> groups as \<^verbatim>\<open>(a * b) % c\<close>. The line is printed with the slot's address.
\<close>

definition readLog_line :: "32 word \<Rightarrow> trackPoint_t \<Rightarrow> cli_event" where
  "readLog_line tp r =
    Chprintf ''%08x,%d,%d,%d.%05d,%d.%05d,%d,%d,%d,%d.%03d,%d.%03d,%d,%d.%01d,%2d.%02d,%2d.%01d''
      [P tp, I (uint (id_dp r)), I (uint (gps_time r)),
       I (sint (gps_lat r) sdiv 10000000),
       I (((if 0 < sint (gps_lat r) then 1 else - 1) * (sint (gps_lat r) sdiv 100)) smod 100000),
       I (sint (gps_lon r) sdiv 10000000),
       I (((if 0 < sint (gps_lon r) then 1 else - 1) * (sint (gps_lon r) sdiv 100)) smod 100000),
       I (uint (gps_alt r)),
       I (uint (gps_sats r)), I (uint (gps_ttff r)),
       I (uint (adc_vbat r) div 1000), I (uint (adc_vbat r) mod 1000),
       I (uint (adc_vsol r) div 1000), I (uint (adc_vsol r) mod 1000),
       I (sint (pac_pbat r)),
       I (uint (sen_i1_press r div 10)), I (uint (sen_i1_press r mod 10)),
       I (sint (sen_i1_temp r) sdiv 100), I (sint (sen_i1_temp r) smod 100),
       I (uint (sen_i1_hum r) div 10), I (uint (sen_i1_hum r) mod 10)]"

text \<open>
  The loop of \<^verbatim>\<open>readLog\<close>. \<^verbatim>\<open>getLogBuffer\<close> (not among the sources) is a parameter,
  from the 16-bit slot index to the slot's address, \<open>0\<close> for \<^verbatim>\<open>NULL\<close>; \<open>mem\<close> reads the
  record at an address. The index is a \<^verbatim>\<open>uint16_t\<close> and wraps around, so the loop
  need not end: not returning is the value \<open>None\<close>.
\<close>

partial_function (option) readLog_loop ::
  "(16 word \<Rightarrow> 32 word) \<Rightarrow> (32 word \<Rightarrow> trackPoint_t) \<Rightarrow> 16 word \<Rightarrow> cli_event list
    \<Rightarrow> cli_event list option" where
  "readLog_loop getLogBuffer mem i out =
    (let tp = getLogBuffer i in
     if tp \<noteq> 0
     then readLog_loop getLogBuffer mem (i + 1)
            (if id_dp (mem tp) \<noteq> 0xFFFFFFFF then out @ [readLog_line tp (mem tp)] else out)
     else Some out)"

definition readLog ::
  "(16 word \<Rightarrow> 32 word) \<Rightarrow> (32 word \<Rightarrow> trackPoint_t) \<Rightarrow> cli_event list option" where
  "readLog getLogBuffer mem =
    readLog_loop getLogBuffer mem 0
      [Chprintf ''addr,id,time,lat,lon,alt,sats,ttff,vbat,vsol,vsub,pbat,rbat,press,temp,hum,idimg'' []]"

section \<open>The beacon thread (\<^verbatim>\<open>bcnThread\<close>)\<close>

subsection \<open>Configuration the thread reads\<close>

text \<open>
  Modelled from the spec: the argument \<^verbatim>\<open>bcn_app_conf_t\<close> of the thread and the global
  \<^verbatim>\<open>conf_sram\<close> are declared in headers that are not among the sources. The records
  hold the fields \<^verbatim>\<open>bcnThread\<close> reads, under its names. The sleep configuration is only
  passed by address to \<^verbatim>\<open>p_sleep\<close>, whose answer is an input of each cycle.
\<close>

record thd_beacon_conf_t =
  init_delay :: sysinterval_t
  cycle :: sysinterval_t

record bcn_radio_conf_t =
  pwr :: "8 word"
  freq :: radio_freq_t
  mod_r :: mod_t
  cca :: "8 word"

record base_conf_t =
  enabled :: bool
  call :: string
  path :: string

record bcn_app_conf_t =
  beacon :: thd_beacon_conf_t
  radio_conf :: bcn_radio_conf_t
  call :: string
  path :: string
  symbol :: aprs_sym_t
  run_once :: bool

record conf_sram_t =
  tel_enc_cycle :: sysinterval_t
  base :: base_conf_t

subsection \<open>Packets and events\<close>

text \<open>
  Modelled from the spec: the APRS encoders and the packet pool (\<^verbatim>\<open>aprs.c\<close>) are not
  among the sources. A packet is represented by its PDU kind and the arguments of the
  encoder call that made it. Whether an encoder returns a packet or \<^verbatim>\<open>NULL\<close> (no free
  packet object) is an input of each cycle. Per the comment at its call, the APRSD
  message is a message from this device for which no acknowledgment is requested: the
  last field of \<open>Aprsd_message\<close> is the acknowledgment request.
\<close>

datatype packet_t =
    Telemetry_configuration string string string "8 word"
  | Position_and_telemetry string string aprs_sym_t dataPoint_t bool
  | Aprsd_message string string string bool

definition aprs_encode_telemetry_configuration ::
  "string \<Rightarrow> string \<Rightarrow> string \<Rightarrow> 8 word \<Rightarrow> packet_t" where
  "aprs_encode_telemetry_configuration originator pth destination ty =
     Telemetry_configuration originator pth destination ty"

definition aprs_encode_position_and_telemetry ::
  "string \<Rightarrow> string \<Rightarrow> aprs_sym_t \<Rightarrow> dataPoint_t \<Rightarrow> bool \<Rightarrow> packet_t" where
  "aprs_encode_position_and_telemetry callsign pth symb dataPoint extended =
     Position_and_telemetry callsign pth symb dataPoint extended"

definition aprs_compose_aprsd_message :: "string \<Rightarrow> string \<Rightarrow> string \<Rightarrow> packet_t" where
  "aprs_compose_aprsd_message originator pth recipient =
     Aprsd_message originator pth recipient False"

text \<open>
  Modelled from the spec: \<^verbatim>\<open>APRS_NUM_TELEM_GROUPS\<close> is a constant of the missing header
  \<^verbatim>\<open>aprs.h\<close>; there are four telemetry-configuration PDU kinds (PARM, UNIT, EQNS, BITS).
\<close>

definition APRS_NUM_TELEM_GROUPS :: "8 word" where
  "APRS_NUM_TELEM_GROUPS = 4"

text \<open>
  Modelled from the spec: \<^verbatim>\<open>chVTTimeElapsedSinceX\<close> belongs to the missing kernel. It is
  the current system time minus the start, in the wrapping arithmetic of the counter.
\<close>

definition chVTTimeElapsedSinceX :: "systime_t \<Rightarrow> systime_t \<Rightarrow> sysinterval_t" where
  "chVTTimeElapsedSinceX current start = current - start"

text \<open>The trace lines of the thread, one constructor for each call of a trace macro.\<close>

datatype trace_t =
    Startup_beacon_thread
  | Do_module_BEACON_cycle
  | Waiting_for_position_data
  | Transmit_telemetry_configuration
  | No_free_packet_objects_for_telemetry_config
  | Failed_to_transmit_telemetry_config
  | Transmit_position_and_telemetry
  | No_free_packet_objects_for_position
  | Failed_to_transmit_beacon_data
  | Transmit_recently_heard_direct
  | No_free_packet_objects_or_badly_formed_APRSD
  | Failed_to_transmit_APRSD_data

text \<open>
  What the thread does, in program order. \<open>TransmitOnRadio\<close> carries the arguments of
  the call: the packet, the frequency, the two literal zeros, power, modulation and CCA
  threshold. \<open>MsgSend\<close> is the snapshot request to the collector thread.
  \<open>Null_dereference\<close> is the read through a \<^verbatim>\<open>NULL\<close> data point: what the program
  does from there on is undefined, and the model ends the thread with it.
\<close>

datatype bcn_event =
    Init_data_collector
  | Trace trace_t
  | ThdSleepUntil systime_t
  | ThdSleep sysinterval_t
  | MsgSend
  | TransmitOnRadio packet_t radio_freq_t nat nat "8 word" mod_t "8 word"
  | WaitForTrigger sysinterval_t sysinterval_t
  | ThdExit
  | Null_dereference

subsection \<open>Inputs of a cycle\<close>

text \<open>
  What a cycle reads from outside the thread: the collector's reply to the snapshot
  request (\<open>None\<close> for a \<^verbatim>\<open>NULL\<close> pointer), the answer of \<^verbatim>\<open>p_sleep\<close>, the system time that the
  elapsed-time test reads, for each encoder call whether it returned a packet, for each
  \<^verbatim>\<open>transmitOnRadio\<close> its result, and the time \<^verbatim>\<open>waitForTrigger\<close> returns.
  \<^verbatim>\<open>isPositionValid\<close> is not among the sources and is a parameter of the model.
\<close>

record cycle_env =
  snapshot :: "dataPoint_t option"
  sleeping :: bool
  now :: systime_t
  conf_packet :: "8 word \<Rightarrow> bool"
  conf_sent :: "8 word \<Rightarrow> bool"
  pos_packet :: bool
  pos_sent :: bool
  aprsd_packet :: bool
  aprsd_sent :: bool
  trigger :: sysinterval_t

text \<open>The two local variables that live across cycles.\<close>

record bcn_state =
  last_conf_transmission :: sysinterval_t
  time :: sysinterval_t

datatype bcn_next = Next_cycle | Exited | Faulted

subsection \<open>The cycle\<close>

text \<open>One pass of the loop over the telemetry-configuration types.\<close>

definition telem_conf_step ::
  "sysinterval_t \<Rightarrow> bcn_app_conf_t \<Rightarrow> cycle_env \<Rightarrow> 8 word \<Rightarrow> bcn_event list" where
  "telem_conf_step f conf e ty =
    (if \<not> conf_packet e ty
     then [Trace No_free_packet_objects_for_telemetry_config]
     else TransmitOnRadio
            (aprs_encode_telemetry_configuration (call conf) (path conf) (call conf) ty)
            (freq (radio_conf conf)) 0 0 (pwr (radio_conf conf)) (mod_r (radio_conf conf))
            (cca (radio_conf conf))
          # (if \<not> conf_sent e ty then [Trace Failed_to_transmit_telemetry_config] else []))
    @ [ThdSleep (TIME_S2I f 5)]"

function telem_conf_loop ::
  "sysinterval_t \<Rightarrow> bcn_app_conf_t \<Rightarrow> cycle_env \<Rightarrow> 8 word \<Rightarrow> bcn_event list" where
  "telem_conf_loop f conf e ty =
    (if ty < APRS_NUM_TELEM_GROUPS
     then telem_conf_step f conf e ty @ telem_conf_loop f conf e (ty + 1)
     else [])"
  by pat_completeness auto
termination
proof (relation "measure (\<lambda>(f, conf, e, ty). unat APRS_NUM_TELEM_GROUPS - unat ty)")
  show "wf (measure (\<lambda>(f, conf, e, ty). unat APRS_NUM_TELEM_GROUPS - unat ty))" by simp
next
  fix f :: sysinterval_t and conf :: bcn_app_conf_t and e :: cycle_env and ty :: "8 word"
  assume lt: "ty < APRS_NUM_TELEM_GROUPS"
  then have "unat ty < 4" by (simp add: APRS_NUM_TELEM_GROUPS_def word_less_nat_alt)
  then have "unat (ty + 1) = unat ty + 1" by (simp add: unat_word_ariths)
  with \<open>unat ty < 4\<close>
  show "((f, conf, e, ty + 1), (f, conf, e, ty))
          \<in> measure (\<lambda>(f, conf, e, ty). unat APRS_NUM_TELEM_GROUPS - unat ty)"
    by (simp add: APRS_NUM_TELEM_GROUPS_def)
qed

declare telem_conf_loop.simps [simp del]

text \<open>The telemetry-configuration block: the events and the updated time stamp.\<close>

definition bcn_telemetry_config ::
  "sysinterval_t \<Rightarrow> bcn_app_conf_t \<Rightarrow> conf_sram_t \<Rightarrow> cycle_env \<Rightarrow> bcn_state
    \<Rightarrow> bcn_event list \<times> bcn_state" where
  "bcn_telemetry_config f conf sram e st =
    (if tel_enc_cycle sram \<noteq> 0
        \<and> chVTTimeElapsedSinceX (now e) (last_conf_transmission st) \<ge> tel_enc_cycle sram
     then (Trace Transmit_telemetry_configuration # telem_conf_loop f conf e 0,
           st\<lparr>last_conf_transmission := last_conf_transmission st + tel_enc_cycle sram\<rparr>)
     else ([], st))"

definition bcn_position ::
  "sysinterval_t \<Rightarrow> bcn_app_conf_t \<Rightarrow> cycle_env \<Rightarrow> dataPoint_t \<Rightarrow> bcn_event list" where
  "bcn_position f conf e dataPoint =
    Trace Transmit_position_and_telemetry
    # (if \<not> pos_packet e
       then [Trace No_free_packet_objects_for_position]
       else TransmitOnRadio
              (aprs_encode_position_and_telemetry (call conf) (path conf) (symbol conf)
                 dataPoint True)
              (freq (radio_conf conf)) 0 0 (pwr (radio_conf conf)) (mod_r (radio_conf conf))
              (cca (radio_conf conf))
            # (if \<not> pos_sent e then [Trace Failed_to_transmit_beacon_data] else [])
            @ [ThdSleep (TIME_S2I f 5)])"

definition bcn_aprsd ::
  "sysinterval_t \<Rightarrow> bcn_app_conf_t \<Rightarrow> conf_sram_t \<Rightarrow> cycle_env \<Rightarrow> bcn_event list" where
  "bcn_aprsd f conf sram e =
    Trace Transmit_recently_heard_direct
    # (let call_v = (if enabled (base sram) then base_conf_t.call (base sram) else call conf);
           path_v = (if enabled (base sram) then base_conf_t.path (base sram) else path conf)
       in if \<not> aprsd_packet e
          then [Trace No_free_packet_objects_or_badly_formed_APRSD]
          else TransmitOnRadio (aprs_compose_aprsd_message (call conf) path_v call_v)
                 (freq (radio_conf conf)) 0 0 (pwr (radio_conf conf))
                 (mod_r (radio_conf conf)) (cca (radio_conf conf))
               # (if \<not> aprsd_sent e then [Trace Failed_to_transmit_APRSD_data] else [])
               @ [ThdSleep (TIME_S2I f 5)])"

text \<open>
  The end of a pass: the exit of a run-once thread, or \<^verbatim>\<open>waitForTrigger\<close>, whose
  result is the new \<^verbatim>\<open>time\<close>.
\<close>

definition bcn_end_of_cycle ::
  "bcn_app_conf_t \<Rightarrow> cycle_env \<Rightarrow> bcn_state \<Rightarrow> bcn_event list \<times> bcn_state \<times> bcn_next" where
  "bcn_end_of_cycle conf e st =
    (if run_once conf
     then ([ThdExit], st, Exited)
     else ([WaitForTrigger (time st) (cycle (beacon conf))], st\<lparr>time := trigger e\<rparr>,
           Next_cycle))"

text \<open>
  The branch taken for a data point without a valid position: a trace line, a sleep of
  60 seconds and \<^verbatim>\<open>continue\<close>, so the pass ends without the run-once test and without
  \<^verbatim>\<open>waitForTrigger\<close>.
\<close>

definition bcn_wait_for_position ::
  "sysinterval_t \<Rightarrow> bcn_state \<Rightarrow> bcn_event list \<times> bcn_state \<times> bcn_next" where
  "bcn_wait_for_position f st =
    ([Trace Do_module_BEACON_cycle, MsgSend,
      Trace Waiting_for_position_data, ThdSleep (TIME_S2I f 60)],
     st, Next_cycle)"

text \<open>
  A \<^verbatim>\<open>NULL\<close> reply of the collector. The test
  \<^verbatim>\<open>!isPositionValid(dataPoint) || dataPoint == NULL\<close> calls \<^verbatim>\<open>isPositionValid\<close> on the
  pointer before it compares the pointer with \<^verbatim>\<open>NULL\<close>, and the branch it then takes
  reads \<^verbatim>\<open>dataPoint->gps_state\<close> for its trace line: the data point is read through
  \<^verbatim>\<open>NULL\<close> before the trace line and the sleep.
\<close>

definition bcn_null_dataPoint ::
  "bcn_state \<Rightarrow> bcn_event list \<times> bcn_state \<times> bcn_next" where
  "bcn_null_dataPoint st =
    ([Trace Do_module_BEACON_cycle, MsgSend, Null_dereference], st, Faulted)"

text \<open>
  The body of \<^verbatim>\<open>while(true)\<close>. A sleeping thread does not look at the reply.
\<close>

definition bcn_cycle ::
  "(dataPoint_t \<Rightarrow> bool) \<Rightarrow> sysinterval_t \<Rightarrow> bcn_app_conf_t \<Rightarrow> conf_sram_t \<Rightarrow> cycle_env
    \<Rightarrow> bcn_state \<Rightarrow> bcn_event list \<times> bcn_state \<times> bcn_next" where
  "bcn_cycle isPositionValid f conf sram e st =
    (if \<not> sleeping e
     then (case snapshot e of
             None \<Rightarrow> bcn_null_dataPoint st
           | Some dataPoint \<Rightarrow>
               if \<not> isPositionValid dataPoint
               then bcn_wait_for_position f st
               else (let (tel, st1) = bcn_telemetry_config f conf sram e st;
                         (fin, st2, nxt) = bcn_end_of_cycle conf e st1
                     in ([Trace Do_module_BEACON_cycle, MsgSend] @ tel
                         @ bcn_position f conf e dataPoint
                         @ bcn_aprsd f conf sram e @ fin,
                         st2, nxt)))
     else (let (fin, st2, nxt) = bcn_end_of_cycle conf e st
           in ([Trace Do_module_BEACON_cycle, MsgSend] @ fin, st2, nxt)))"

text \<open>A reply that holds a data point which \<^verbatim>\<open>isPositionValid\<close> refuses.\<close>

definition position_refused :: "(dataPoint_t \<Rightarrow> bool) \<Rightarrow> dataPoint_t option \<Rightarrow> bool" where
  "position_refused isPositionValid reply =
    (case reply of None \<Rightarrow> False | Some dataPoint \<Rightarrow> \<not> isPositionValid dataPoint)"

subsection \<open>The thread\<close>

text \<open>
  The loop runs for ever; a run of the model takes the inputs of finitely many cycles
  and yields the events of those cycles, or of the cycles up to the exit of the thread
  or to the read through \<^verbatim>\<open>NULL\<close>.
\<close>

fun bcn_loop ::
  "(dataPoint_t \<Rightarrow> bool) \<Rightarrow> sysinterval_t \<Rightarrow> bcn_app_conf_t \<Rightarrow> conf_sram_t \<Rightarrow> bcn_state
    \<Rightarrow> cycle_env list \<Rightarrow> bcn_event list" where
  "bcn_loop isPositionValid f conf sram st [] = []"
| "bcn_loop isPositionValid f conf sram st (e # es) =
    (case bcn_cycle isPositionValid f conf sram e st of
       (evs, st1, Next_cycle) \<Rightarrow> evs @ bcn_loop isPositionValid f conf sram st1 es
     | (evs, st1, Exited) \<Rightarrow> evs
     | (evs, st1, Faulted) \<Rightarrow> evs)"

text \<open>
  The thread from its start: \<open>t0\<close>, \<open>t1\<close> and \<open>t2\<close> are the three readings of
  \<^verbatim>\<open>chVTGetSystemTime\<close> before the loop.
\<close>

definition bcnThread ::
  "(dataPoint_t \<Rightarrow> bool) \<Rightarrow> sysinterval_t \<Rightarrow> bcn_app_conf_t \<Rightarrow> conf_sram_t
    \<Rightarrow> systime_t \<Rightarrow> systime_t \<Rightarrow> systime_t \<Rightarrow> cycle_env list \<Rightarrow> bcn_event list" where
  "bcnThread isPositionValid f conf sram t0 t1 t2 envs =
    [Init_data_collector, Trace Startup_beacon_thread,
     ThdSleepUntil (t2 + init_delay (beacon conf))]
    @ bcn_loop isPositionValid f conf sram
        \<lparr>last_conf_transmission = t0 - tel_enc_cycle sram, time = t1\<rparr> envs"

text \<open>The packets handed to the radio, in order.\<close>

fun transmitted :: "bcn_event list \<Rightarrow> packet_t list" where
  "transmitted [] = []"
| "transmitted (TransmitOnRadio p fr st ch pw md cc # evs) = p # transmitted evs"
| "transmitted (ev # evs) = transmitted evs"

text \<open>The events other than trace lines, in order.\<close>

fun actions :: "bcn_event list \<Rightarrow> bcn_event list" where
  "actions [] = []"
| "actions (Trace m # evs) = actions evs"
| "actions (ev # evs) = ev # actions evs"

subsection \<open>Vocabulary of the statements\<close>

text \<open>The call of \<^verbatim>\<open>transmitOnRadio\<close> with the radio settings of the thread.\<close>

definition on_radio :: "bcn_app_conf_t \<Rightarrow> packet_t \<Rightarrow> bcn_event" where
  "on_radio conf p =
    TransmitOnRadio p (freq (radio_conf conf)) 0 0 (pwr (radio_conf conf))
      (mod_r (radio_conf conf)) (cca (radio_conf conf))"

text \<open>
  The APRSD message of a thread: from its own call, to the base station's call and path
  when the base is enabled and to its own call and path otherwise, no acknowledgment
  requested.
\<close>

definition aprsd_packet_of :: "bcn_app_conf_t \<Rightarrow> conf_sram_t \<Rightarrow> packet_t" where
  "aprsd_packet_of conf sram =
    Aprsd_message (call conf)
      (if enabled (base sram) then base_conf_t.path (base sram) else path conf)
      (if enabled (base sram) then base_conf_t.call (base sram) else call conf)
      False"

definition is_telemetry_configuration :: "packet_t \<Rightarrow> bool" where
  "is_telemetry_configuration p =
    (case p of Telemetry_configuration a b c d \<Rightarrow> True | _ \<Rightarrow> False)"

definition is_aprsd_message :: "packet_t \<Rightarrow> bool" where
  "is_aprsd_message p = (case p of Aprsd_message a b c d \<Rightarrow> True | _ \<Rightarrow> False)"

definition carries_position :: "packet_t \<Rightarrow> dataPoint_t \<Rightarrow> bool" where
  "carries_position p dp =
    (case p of Position_and_telemetry c pt s d x \<Rightarrow> d = dp | _ \<Rightarrow> False)"

section \<open>Concrete inputs\<close>

text \<open>
  A data point with a given serial number and GPS state; a beacon configuration as the
  compiled defaults have it, at 10000 ticks per second; the stored configuration with a
  given telemetry-configuration cycle and base station switch; the inputs of a cycle
  whose snapshot has a given GPS state, at a given system time, with the packet pool
  serving or refusing the configuration requests and the other requests.
\<close>

definition demo_point :: "32 word \<Rightarrow> gpsState_t \<Rightarrow> dataPoint_t" where
  "demo_point i g =
    \<lparr> adc_vsol = 0, adc_vbat = 4100, pac_vsol = 0, pac_vbat = 4100, pac_pbat = 0,
      pac_psol = 0, light_intensity = 0, gps_state = g, gps_sats = 7, gps_ttff = 30,
      gps_pdop = 20, gps_alt = 500, gps_lat = 377749000, gps_lon = 0,
      sen_i1_press = 1013250, sen_e1_press = 0, sen_e2_press = 0, sen_i1_temp = 2150,
      sen_e1_temp = 0, sen_e2_temp = 0, sen_i1_hum = 40, sen_e1_hum = 0, sen_e2_hum = 0,
      dummy2 = 0, stm32_temp = 0, si446x_temp = 0, reset = 0, id_dp = i, gps_time = 0,
      sys_time = 120, sys_error = 0, gpio = 0 \<rparr>"

definition demo_conf :: "bool \<Rightarrow> bcn_app_conf_t" where
  "demo_conf once =
    \<lparr> beacon = \<lparr> init_delay = 0, cycle = TIME_S2I 10000 120 \<rparr>,
      radio_conf = \<lparr> pwr = 0x7F, freq = FREQ_APRS_DYNAMIC, mod_r = MOD_AFSK, cca = 0x4F \<rparr>,
      call = ''DL7AD-12'', path = ''WIDE1-1'', symbol = SYM_BALLOON, run_once = once \<rparr>"

definition demo_sram :: "sysinterval_t \<Rightarrow> bool \<Rightarrow> conf_sram_t" where
  "demo_sram tec en =
    \<lparr> tel_enc_cycle = tec,
      base = \<lparr> enabled = en, base_conf_t.call = ''DL7AD-1'', base_conf_t.path = ''WIDE2-1'' \<rparr> \<rparr>"

definition demo_env :: "gpsState_t \<Rightarrow> systime_t \<Rightarrow> bool \<Rightarrow> bool \<Rightarrow> cycle_env" where
  "demo_env g t pool_conf pool =
    \<lparr> snapshot = Some (demo_point 1 g), sleeping = False, now = t,
      conf_packet = (\<lambda>ty. pool_conf), conf_sent = (\<lambda>ty. True),
      pos_packet = pool, pos_sent = True, aprsd_packet = pool, aprsd_sent = True,
      trigger = t \<rparr>"

text \<open>
  A log of two slots, the first erased and the second written, and a configuration
  table whose entry 0 is static and whose other entries are dynamic.
\<close>

definition demo_log :: "16 word \<Rightarrow> 32 word" where
  "demo_log i = (if i = 0 then 0x08080000 else if i = 1 then 0x08080040 else 0)"

definition demo_mem :: "32 word \<Rightarrow> trackPoint_t" where
  "demo_mem a =
    (if a = 0x08080040 then demo_point 7 GPS_LOCKED1 else demo_point 0xFFFFFFFF GPS_OFF)"

definition demo_tab :: "8 word \<Rightarrow> module_conf_t" where
  "demo_tab i =
    \<lparr> power = 0x7F,
      frequency = \<lparr> ftype = (if i = 0 then FREQ_STATIC else FREQ_DYNAMIC), hz = 144800000 \<rparr>,
      modulation = 4, init_delay = 0, packet_spacing = 0, wdg_timeout = 0 \<rparr>"

section \<open>The default configuration\<close>

text \<open>
  C8. The primary position thread of the compiled default configuration has the premises
  of scenario S1: its cycle is 120 seconds and its telemetry-configuration cycle 10800
  seconds (both as ticks, through \<^verbatim>\<open>TIME_S2I\<close>), its call sign is DL7AD-12, its path
  WIDE1-1, its modulation AFSK, its frequency the dynamic APRS-regional descriptor and
  its power 0x7F.
\<close>

theorem config_pos_pri_matches_S1:
  "thread_conf_t.cycle (thread_conf (pos_pri (config f))) = TIME_S2I f 120
   \<and> thd_pos_conf_t.tel_enc_cycle (pos_pri (config f)) = TIME_S2I f 10800
   \<and> thd_pos_conf_t.call (pos_pri (config f)) = ''DL7AD-12''
   \<and> thd_pos_conf_t.path (pos_pri (config f)) = ''WIDE1-1''
   \<and> radio_conf_t.mod_r (thd_pos_conf_t.radio_conf (pos_pri (config f))) = MOD_AFSK
   \<and> radio_conf_t.freq (thd_pos_conf_t.radio_conf (pos_pri (config f))) = FREQ_APRS_DYNAMIC
   \<and> radio_conf_t.pwr (thd_pos_conf_t.radio_conf (pos_pri (config f))) = 0x7F"
  by (simp add: config_def)

section \<open>The sensor status layout\<close>

text \<open>
  C3. The claim places the BMEe2 status at bits 12:13, a shift of
  \<^verbatim>\<open>BMEI1_STATUS_SHIFT + 2 * BME_STATUS_BITS = 12\<close>, as the comment at \<^verbatim>\<open>sys_error\<close>
  does. The header does not compute it: the shifts of BMEi1 and BMEe1 expand to the sums
  8 and 8 + 2, but the replacement list of \<^verbatim>\<open>BMEE2_STATUS_SHIFT\<close> expands to
  \<^verbatim>\<open>8 + BME_STATUS ) BITS\<close>, which is no sum of constants and has no value.
\<close>

theorem bmee2_status_shift_has_no_value:
  "shift_value ''BMEI1_STATUS_SHIFT'' = Some 8
   \<and> shift_value ''BMEE1_STATUS_SHIFT'' = Some 10
   \<and> expand 4 [Ident ''BMEE2_STATUS_SHIFT''] =
       [Num 8, Plus, Ident ''BME_STATUS'', RParen, Ident ''BITS'']
   \<and> shift_value ''BMEE2_STATUS_SHIFT'' = None
   \<and> shift_value ''BMEE2_STATUS_SHIFT'' \<noteq> Some 12"
  by (simp add: shift_value_def collector_macros_def eval_nat_numeral)

section \<open>The console commands\<close>

subsection \<open>Missing arguments\<close>

text \<open>
  C10. Called with no argument, \<^verbatim>\<open>debugOnUSB\<close> prints its two usage lines and leaves
  the program state (\<^verbatim>\<open>debug_on_usb\<close>) as it was; called with fewer than two
  arguments, \<^verbatim>\<open>send_aprs_message\<close> prints its three usage lines and leaves the state as
  it was. In both cases the usage lines are the only events: no packet is encoded or
  handed to the radio.
\<close>

theorem usage_without_effect:
  "(argc < 1 \<longrightarrow>
      debugOnUSB atoi st argc argv =
        (st, [Chprintf ''Argument missing!'' [],
              Chprintf ''Argument 1: 1 for switch on, 0 for switch off'' []]))
   \<and> (argc' < 2 \<longrightarrow>
      send_aprs_message st argc' argv' =
        (st, [Chprintf ''Argument missing!'' [],
              Chprintf ''Argument 1: Destination'' [],
              Chprintf ''Argument 2: Message'' []]))"
  by (simp add: debugOnUSB_def send_aprs_message_def)

text \<open>The two commands at an empty and at a one-word command line.\<close>

theorem usage_without_effect_witness:
  "debug_on_usb (fst (debugOnUSB (\<lambda>_. 0) \<lparr>debug_on_usb = True\<rparr> 0 (\<lambda>_. []))) = True
   \<and> snd (debugOnUSB (\<lambda>_. 0) \<lparr>debug_on_usb = True\<rparr> 0 (\<lambda>_. [])) =
       [Chprintf ''Argument missing!'' [],
        Chprintf ''Argument 1: 1 for switch on, 0 for switch off'' []]
   \<and> send_aprs_message \<lparr>debug_on_usb = True\<rparr> 1 (\<lambda>_. ''DL7AD'') =
       (\<lparr>debug_on_usb = True\<rparr>,
        [Chprintf ''Argument missing!'' [],
         Chprintf ''Argument 1: Destination'' [],
         Chprintf ''Argument 2: Message'' []])"
  using usage_without_effect [of 0 "\<lambda>_. 0" "\<lparr>debug_on_usb = True\<rparr>" "\<lambda>_. []" 1 "\<lambda>_. ''DL7AD''"]
  by simp

subsection \<open>The frequency of a configuration entry\<close>

text \<open>
  C6. For a static frequency descriptor \<^verbatim>\<open>printConfig\<close> prints the stored \<^verbatim>\<open>hz\<close> field
  (MHz and the rest, in kHz when \<^verbatim>\<open>hz\<close> is a multiple of 1000) and consults no region
  resolution: its output is the same whatever \<^verbatim>\<open>getFrequency\<close> would answer. Only for
  a dynamic descriptor is the printed frequency the answer of \<^verbatim>\<open>getFrequency\<close> for that
  descriptor.
\<close>

theorem printConfig_static_no_lookup:
  "(ftype fc = FREQ_STATIC \<longrightarrow>
      printConfig_frequency getFrequency fc =
        [Chprintf ''Frequency: %d.%03d MHz''
           [I (uint (hz fc div 1000000)),
            I (uint (if (hz fc div 1000) * 1000 = hz fc
                     then (hz fc mod 1000000) div 1000 else hz fc mod 1000000))]]
      \<and> printConfig_frequency getFrequency fc = printConfig_frequency getFrequency' fc
      \<and> (1 \<le> argc \<and> frequency (config_tab (word_of_int (atoi (argv 0)))) = fc \<longrightarrow>
           printConfig atoi getFrequency config_tab st argc argv =
           printConfig atoi getFrequency' config_tab st argc argv))
   \<and> (ftype fc = FREQ_DYNAMIC \<longrightarrow>
      printConfig_frequency getFrequency fc =
        [Chprintf ''Frequency: APRS region dependent (currently %d.%03d MHz)''
           [I (uint (getFrequency fc div 1000000)),
            I (uint ((getFrequency fc mod 1000000) div 1000))]])"
  by (simp add: printConfig_frequency_def printConfig_def Let_def)

text \<open>
  A static entry at 144.800 MHz prints 144.800 under two different region
  resolutions; a dynamic entry prints what the resolution answers.
\<close>

theorem printConfig_static_no_lookup_witness:
  "printConfig_frequency (\<lambda>_. 144390000) (frequency (demo_tab 0)) =
     [Chprintf ''Frequency: %d.%03d MHz'' [I 144, I 800]]
   \<and> printConfig (\<lambda>_. 0) (\<lambda>_. 144390000) demo_tab \<lparr>debug_on_usb = True\<rparr> 1 (\<lambda>_. ''0'') =
     printConfig (\<lambda>_. 0) (\<lambda>_. 145175000) demo_tab \<lparr>debug_on_usb = True\<rparr> 1 (\<lambda>_. ''0'')
   \<and> printConfig_frequency (\<lambda>_. 144390000) (frequency (demo_tab 1)) =
     [Chprintf ''Frequency: APRS region dependent (currently %d.%03d MHz)'' [I 144, I 390]]"
  using printConfig_static_no_lookup [of "frequency (demo_tab 0)" "\<lambda>_. 144390000"
      "\<lambda>_. 145175000" 1 demo_tab "\<lambda>_. 0" "\<lambda>_. ''0''" "\<lparr>debug_on_usb = True\<rparr>"]
    printConfig_static_no_lookup [of "frequency (demo_tab 1)" "\<lambda>_. 144390000"
      "\<lambda>_. 145175000" 1 demo_tab "\<lambda>_. 0" "\<lambda>_. ''0''" "\<lparr>debug_on_usb = True\<rparr>"]
  by (simp add: demo_tab_def)

subsection \<open>The log listing\<close>

text \<open>
  The loop from slot \<open>k\<close>, when slot \<open>n\<close> is the first for which \<^verbatim>\<open>getLogBuffer\<close>
  returns \<^verbatim>\<open>NULL\<close>: it returns, having added the lines of the slots from \<open>k\<close> to
  \<open>n - 1\<close> that are not erased.
\<close>

lemma readLog_loop_from:
  assumes stop: "getLogBuffer (of_nat n) = 0"
    and live: "\<And>j. j < n \<Longrightarrow> getLogBuffer (of_nat j) \<noteq> 0"
  shows "k \<le> n \<Longrightarrow>
    readLog_loop getLogBuffer mem (of_nat k) out =
      Some (out @ map (\<lambda>j. readLog_line (getLogBuffer (of_nat j)) (mem (getLogBuffer (of_nat j))))
                    (filter (\<lambda>j. id_dp (mem (getLogBuffer (of_nat j))) \<noteq> 0xFFFFFFFF) [k..<n]))"
proof (induction "n - k" arbitrary: k out)
  case 0
  then have "k = n" by simp
  with stop show ?case
    by (subst readLog_loop.simps) simp
next
  case (Suc d)
  then have lt: "k < n" and d: "d = n - Suc k" and le: "Suc k \<le> n" by simp_all
  have nz: "getLogBuffer (of_nat k) \<noteq> 0" using live [OF lt] .
  have step: "(of_nat k :: 16 word) + 1 = of_nat (Suc k)" by simp
  have split: "[k..<n] = k # [Suc k..<n]" using lt by (simp add: upt_conv_Cons)
  show ?case
    apply (subst readLog_loop.simps)
    apply (simp only: Let_def nz if_True simp_thms step Suc.hyps(1) [OF d le] split)
    apply simp
    done
qed

text \<open>
  C5. \<^verbatim>\<open>readLog\<close> walks the slots from index 0 upward until \<^verbatim>\<open>getLogBuffer\<close> returns
  \<^verbatim>\<open>NULL\<close>, at slot \<open>n\<close>; it then returns, and after the header line its output has one
  record line for each slot below \<open>n\<close> whose \<^verbatim>\<open>id\<close> is not \<^verbatim>\<open>0xFFFFFFFF\<close>, in slot order,
  and no line for an erased slot.
\<close>

theorem readLog_prints_nonerased_slots:
  assumes "getLogBuffer (of_nat n) = 0"
    and "\<forall>j<n. getLogBuffer (of_nat j) \<noteq> 0"
  shows "readLog getLogBuffer mem =
    Some (Chprintf ''addr,id,time,lat,lon,alt,sats,ttff,vbat,vsol,vsub,pbat,rbat,press,temp,hum,idimg'' []
          # map (\<lambda>j. readLog_line (getLogBuffer (of_nat j)) (mem (getLogBuffer (of_nat j))))
                (filter (\<lambda>j. id_dp (mem (getLogBuffer (of_nat j))) \<noteq> 0xFFFFFFFF) [0..<n]))"
  using readLog_loop_from [of getLogBuffer n 0 mem] assms
  by (simp add: readLog_def)

text \<open>A log of two slots: the erased first slot prints nothing, the second its line.\<close>

theorem readLog_prints_nonerased_slots_witness:
  "readLog demo_log demo_mem =
    Some [Chprintf ''addr,id,time,lat,lon,alt,sats,ttff,vbat,vsol,vsub,pbat,rbat,press,temp,hum,idimg'' [],
          readLog_line 0x08080040 (demo_point 7 GPS_LOCKED1)]"
proof -
  have stop: "demo_log (of_nat 2) = 0" by (simp add: demo_log_def)
  have live: "\<forall>j<2. demo_log (of_nat j) \<noteq> 0"
  proof (intro allI impI)
    fix j :: nat
    assume "j < 2"
    then have "j = 0 \<or> j = 1" by arith
    then show "demo_log (of_nat j) \<noteq> 0" by (auto simp: demo_log_def)
  qed
  have idx: "[0..<2] = [0, Suc 0]" by (simp add: upt_rec numeral_2_eq_2)
  show ?thesis
    by (subst readLog_prints_nonerased_slots [OF stop live])
       (simp add: idx demo_log_def demo_mem_def demo_point_def)
qed

section \<open>The beacon thread\<close>

subsection \<open>Projections and the unrolled configuration loop\<close>

lemma transmitted_append: "transmitted (xs @ ys) = transmitted xs @ transmitted ys"
  by (induction xs rule: transmitted.induct) simp_all

lemma actions_append: "actions (xs @ ys) = actions xs @ actions ys"
  by (induction xs rule: actions.induct) simp_all

text \<open>The loop over the four telemetry-configuration types, pass by pass.\<close>

lemma telem_conf_loop_unrolled:
  "telem_conf_loop f conf e 0 =
     telem_conf_step f conf e 0 @ telem_conf_step f conf e 1
     @ telem_conf_step f conf e 2 @ telem_conf_step f conf e 3"
proof -
  have s4: "telem_conf_loop f conf e 4 = []"
    by (subst telem_conf_loop.simps) (simp add: APRS_NUM_TELEM_GROUPS_def)
  have s3: "telem_conf_loop f conf e 3 = telem_conf_step f conf e 3"
    by (subst telem_conf_loop.simps) (simp add: APRS_NUM_TELEM_GROUPS_def s4)
  have s2: "telem_conf_loop f conf e 2 = telem_conf_step f conf e 2 @ telem_conf_step f conf e 3"
    by (subst telem_conf_loop.simps) (simp add: APRS_NUM_TELEM_GROUPS_def s3)
  have s1: "telem_conf_loop f conf e 1 =
      telem_conf_step f conf e 1 @ telem_conf_step f conf e 2 @ telem_conf_step f conf e 3"
    by (subst telem_conf_loop.simps) (simp add: APRS_NUM_TELEM_GROUPS_def s2)
  show ?thesis
    by (subst telem_conf_loop.simps) (simp add: APRS_NUM_TELEM_GROUPS_def s1)
qed

lemma transmitted_position:
  "transmitted (bcn_position f conf e dp) =
    (if pos_packet e
     then [Position_and_telemetry (call conf) (path conf) (symbol conf) dp True] else [])"
  by (simp add: bcn_position_def aprs_encode_position_and_telemetry_def transmitted_append)

lemma transmitted_aprsd:
  "transmitted (bcn_aprsd f conf sram e) =
    (if aprsd_packet e
     then [Aprsd_message (call conf)
             (if enabled (base sram) then base_conf_t.path (base sram) else path conf)
             (if enabled (base sram) then base_conf_t.call (base sram) else call conf)
             False]
     else [])"
  by (simp add: bcn_aprsd_def aprs_compose_aprsd_message_def transmitted_append Let_def)

lemma transmitted_end: "transmitted (fst (bcn_end_of_cycle conf e st)) = []"
  by (simp add: bcn_end_of_cycle_def)

lemma transmitted_step:
  "transmitted (telem_conf_step f conf e ty) =
    (if conf_packet e ty then [Telemetry_configuration (call conf) (path conf) (call conf) ty]
     else [])"
  by (simp add: telem_conf_step_def aprs_encode_telemetry_configuration_def transmitted_append)

lemmas run_defs = bcnThread_def bcn_cycle_def hasGPSacquiredLock_def bcn_telemetry_config_def
  chVTTimeElapsedSinceX_def bcn_end_of_cycle_def bcn_wait_for_position_def
  bcn_null_dataPoint_def
lemmas tx_simps = transmitted_append transmitted_position transmitted_aprsd
  telem_conf_loop_unrolled transmitted_step
lemmas demo_defs = demo_env_def demo_conf_def demo_sram_def demo_point_def

lemma actions_step:
  "actions (telem_conf_step f conf e ty) =
    (if conf_packet e ty
     then [on_radio conf (Telemetry_configuration (call conf) (path conf) (call conf) ty)]
     else []) @ [ThdSleep (TIME_S2I f 5)]"
  by (simp add: telem_conf_step_def aprs_encode_telemetry_configuration_def on_radio_def)

lemma actions_position:
  "actions (bcn_position f conf e dp) =
    (if pos_packet e
     then [on_radio conf (Position_and_telemetry (call conf) (path conf) (symbol conf) dp True),
           ThdSleep (TIME_S2I f 5)]
     else [])"
  by (simp add: bcn_position_def aprs_encode_position_and_telemetry_def on_radio_def)

lemma actions_aprsd:
  "actions (bcn_aprsd f conf sram e) =
    (if aprsd_packet e
     then [on_radio conf (aprsd_packet_of conf sram), ThdSleep (TIME_S2I f 5)]
     else [])"
  by (simp add: bcn_aprsd_def aprs_compose_aprsd_message_def on_radio_def Let_def
        aprsd_packet_of_def)

lemma actions_telemetry_config:
  "actions (fst (bcn_telemetry_config f conf sram e st)) =
    (if tel_enc_cycle sram \<noteq> 0 \<and> tel_enc_cycle sram \<le> now e - last_conf_transmission st
     then concat (map (\<lambda>ty.
            (if conf_packet e ty
             then [on_radio conf
                     (Telemetry_configuration (call conf) (path conf) (call conf) ty)]
             else []) @ [ThdSleep (TIME_S2I f 5)]) [0, 1, 2, 3])
     else [])"
  by (simp add: bcn_telemetry_config_def chVTTimeElapsedSinceX_def telem_conf_loop_unrolled
        actions_append actions_step)

lemma actions_end:
  "actions (fst (bcn_end_of_cycle conf e st)) =
    [if run_once conf then ThdExit else WaitForTrigger (time st) (cycle (beacon conf))]"
  by (simp add: bcn_end_of_cycle_def)

lemma time_after_telemetry_config:
  "time (snd (bcn_telemetry_config f conf sram e st)) = time st"
  by (simp add: bcn_telemetry_config_def)

subsection \<open>The order of a transmitting cycle\<close>

text \<open>
  C2, as amended. In every beacon cycle in which the sleep condition is not met and the
  snapshot position is valid, the thread does the following and nothing else but trace
  lines, in this order: it requests the snapshot; when \<^verbatim>\<open>tel_enc_cycle\<close> is non-zero and
  has elapsed, for each of the four telemetry-configuration types 0 to 3 it hands the
  configuration packet to the radio if the encoder returned one, and sleeps 5 seconds
  (after every type, the last included); it hands one position and telemetry packet to
  the radio and sleeps 5 seconds, if the encoder returned one; it hands one APRSD message
  to the radio and sleeps 5 seconds, if the composer returned one; it exits if the
  thread is run-once, and waits for the next cycle trigger otherwise.
\<close>

theorem beacon_cycle_order:
  assumes "\<not> sleeping e" and "snapshot e = Some dp" and "valid dp"
  shows "actions (fst (bcn_cycle valid f conf sram e st)) =
    MsgSend
    # (if tel_enc_cycle sram \<noteq> 0 \<and> tel_enc_cycle sram \<le> now e - last_conf_transmission st
       then concat (map (\<lambda>ty.
              (if conf_packet e ty
               then [on_radio conf
                       (Telemetry_configuration (call conf) (path conf) (call conf) ty)]
               else []) @ [ThdSleep (TIME_S2I f 5)]) [0, 1, 2, 3])
       else [])
    @ (if pos_packet e
       then [on_radio conf (Position_and_telemetry (call conf) (path conf) (symbol conf) dp True),
             ThdSleep (TIME_S2I f 5)]
       else [])
    @ (if aprsd_packet e
       then [on_radio conf (aprsd_packet_of conf sram), ThdSleep (TIME_S2I f 5)]
       else [])
    @ [if run_once conf then ThdExit else WaitForTrigger (time st) (cycle (beacon conf))]"
proof -
  obtain tel st1 where t: "bcn_telemetry_config f conf sram e st = (tel, st1)"
    by (cases "bcn_telemetry_config f conf sram e st") auto
  obtain fin st2 nxt where n: "bcn_end_of_cycle conf e st1 = (fin, st2, nxt)"
    by (cases "bcn_end_of_cycle conf e st1") auto
  have tel: "actions tel = actions (fst (bcn_telemetry_config f conf sram e st))"
    using t by simp
  have st1: "time st1 = time st"
    using time_after_telemetry_config [of f conf sram e st] t by simp
  have fin: "actions fin = actions (fst (bcn_end_of_cycle conf e st1))"
    using n by simp
  have "fst (bcn_cycle valid f conf sram e st) =
      [Trace Do_module_BEACON_cycle, MsgSend] @ tel @ bcn_position f conf e dp
      @ bcn_aprsd f conf sram e @ fin"
    using assms t n by (simp add: bcn_cycle_def)
  then show ?thesis
    by (simp only: actions_append tel fin actions_telemetry_config actions_position
          actions_aprsd actions_end st1) simp
qed

text \<open>
  A cycle of the default beacon, 120 seconds after the start, with packets available:
  four configuration packets, the position, the APRSD message, each followed by a sleep
  of 5 seconds (50000 ticks), then the wait for the trigger.
\<close>

theorem beacon_cycle_order_witness:
  "actions (fst (bcn_cycle hasGPSacquiredLock 10000 (demo_conf False)
      (demo_sram 108000000 False) (demo_env GPS_LOCKED1 1200000 True True)
      \<lparr>last_conf_transmission = 0 - 108000000, time = 0\<rparr>)) =
     [MsgSend,
      on_radio (demo_conf False) (Telemetry_configuration ''DL7AD-12'' ''WIDE1-1'' ''DL7AD-12'' 0),
      ThdSleep 50000,
      on_radio (demo_conf False) (Telemetry_configuration ''DL7AD-12'' ''WIDE1-1'' ''DL7AD-12'' 1),
      ThdSleep 50000,
      on_radio (demo_conf False) (Telemetry_configuration ''DL7AD-12'' ''WIDE1-1'' ''DL7AD-12'' 2),
      ThdSleep 50000,
      on_radio (demo_conf False) (Telemetry_configuration ''DL7AD-12'' ''WIDE1-1'' ''DL7AD-12'' 3),
      ThdSleep 50000,
      on_radio (demo_conf False)
        (Position_and_telemetry ''DL7AD-12'' ''WIDE1-1'' SYM_BALLOON
           (demo_point 1 GPS_LOCKED1) True),
      ThdSleep 50000,
      on_radio (demo_conf False) (Aprsd_message ''DL7AD-12'' ''WIDE1-1'' ''DL7AD-12'' False),
      ThdSleep 50000,
      WaitForTrigger 0 1200000]"
  using beacon_cycle_order [of "demo_env GPS_LOCKED1 1200000 True True"
      "demo_point 1 GPS_LOCKED1" hasGPSacquiredLock 10000 "demo_conf False"
      "demo_sram 108000000 False" "\<lparr>last_conf_transmission = 0 - 108000000, time = 0\<rparr>"]
  by (simp add: demo_defs hasGPSacquiredLock_def aprsd_packet_of_def TIME_S2I_def)

text \<open>
  The claim as stated fails: in a cycle that is not sleeping and has a valid position,
  but finds no free packet object, nothing is handed to the radio; and the cycle of a
  run-once thread ends with the exit of the thread, not with a wait for the trigger.
\<close>

theorem beacon_cycle_counterexample:
  "\<not> sleeping (demo_env GPS_LOCKED1 1200000 False False)
   \<and> snapshot (demo_env GPS_LOCKED1 1200000 False False) = Some (demo_point 1 GPS_LOCKED1)
   \<and> hasGPSacquiredLock (demo_point 1 GPS_LOCKED1)
   \<and> transmitted (fst (bcn_cycle hasGPSacquiredLock 10000 (demo_conf False)
        (demo_sram 108000000 False) (demo_env GPS_LOCKED1 1200000 False False)
        \<lparr>last_conf_transmission = 0 - 108000000, time = 0\<rparr>)) = []
   \<and> last (fst (bcn_cycle hasGPSacquiredLock 10000 (demo_conf True)
        (demo_sram 108000000 False) (demo_env GPS_LOCKED1 1200000 True True)
        \<lparr>last_conf_transmission = 0 - 108000000, time = 0\<rparr>)) = ThdExit"
  by (simp add: run_defs demo_defs tx_simps)

subsection \<open>The configuration group before the first position\<close>

text \<open>
  A cycle that sleeps, or whose data point is refused, hands nothing to the radio and
  leaves the time stamp of the last configuration transmission alone; so does any number
  of them.
\<close>

lemma quiet_cycle:
  assumes "sleeping x \<or> position_refused valid (snapshot x)"
    and "run_once conf \<longrightarrow> \<not> sleeping x"
  shows "\<exists>evs st1. bcn_cycle valid f conf sram x st = (evs, st1, Next_cycle)
           \<and> transmitted evs = []
           \<and> last_conf_transmission st1 = last_conf_transmission st"
  using assms
  by (auto simp: bcn_cycle_def bcn_wait_for_position_def bcn_end_of_cycle_def
        position_refused_def
      split: option.splits)

lemma quiet_prefix:
  assumes "\<forall>x\<in>set pre. sleeping x \<or> position_refused valid (snapshot x)"
    and "run_once conf \<longrightarrow> (\<forall>x\<in>set pre. \<not> sleeping x)"
  shows "\<exists>evs st1. bcn_loop valid f conf sram st (pre @ rest) =
                     evs @ bcn_loop valid f conf sram st1 rest
           \<and> transmitted evs = []
           \<and> last_conf_transmission st1 = last_conf_transmission st"
  using assms
proof (induction pre arbitrary: st)
  case Nil
  show ?case by (rule exI [of _ "[]"], rule exI [of _ st]) simp
next
  case (Cons x xs)
  from Cons.prems obtain evs st1 where
    c: "bcn_cycle valid f conf sram x st = (evs, st1, Next_cycle)"
    and q: "transmitted evs = []"
    and l: "last_conf_transmission st1 = last_conf_transmission st"
    using quiet_cycle [where x = x and valid = valid and conf = conf and f = f
        and sram = sram and st = st] by auto
  from Cons.prems Cons.IH [of st1] obtain evs2 st2 where
    r: "bcn_loop valid f conf sram st1 (xs @ rest) = evs2 @ bcn_loop valid f conf sram st2 rest"
    and q2: "transmitted evs2 = []"
    and l2: "last_conf_transmission st2 = last_conf_transmission st1"
    by auto
  show ?case
    by (rule exI [of _ "evs @ evs2"], rule exI [of _ st2])
       (simp add: c r q q2 l l2 transmitted_append)
qed

text \<open>
  The elapsed-time test against the initial time stamp \<open>t0 - tec\<close> succeeds as long as
  the ticks since \<open>t0\<close> plus \<open>tec\<close> do not wrap the counter.
\<close>

lemma elapsed_since_start:
  fixes t t0 tec :: "32 word"
  assumes "unat (t - t0) + unat tec < 2 ^ 32"
  shows "tec \<le> t - (t0 - tec)"
proof -
  have e: "t - (t0 - tec) = (t - t0) + tec" by simp
  have "unat ((t - t0) + tec) = unat (t - t0) + unat tec"
    using assms by (simp add: unat_add_lem [THEN iffD1])
  then show ?thesis
    unfolding e by (simp add: word_le_nat_alt)
qed

lemma transmitted_due_cycle:
  assumes "\<not> sleeping e" and "snapshot e = Some dp" and "valid dp"
    and "tel_enc_cycle sram \<noteq> 0"
    and "tel_enc_cycle sram \<le> now e - last_conf_transmission st"
    and "conf_packet e 0 \<and> conf_packet e 1 \<and> conf_packet e 2 \<and> conf_packet e 3"
  shows "\<exists>more. transmitted (fst (bcn_cycle valid f conf sram e st)) =
       [Telemetry_configuration (call conf) (path conf) (call conf) 0,
        Telemetry_configuration (call conf) (path conf) (call conf) 1,
        Telemetry_configuration (call conf) (path conf) (call conf) 2,
        Telemetry_configuration (call conf) (path conf) (call conf) 3] @ more"
  using assms
  by (simp add: bcn_cycle_def bcn_telemetry_config_def chVTTimeElapsedSinceX_def
        bcn_end_of_cycle_def tx_simps)

text \<open>
  C1, as amended. Within a single boot, provided \<^verbatim>\<open>tel_enc_cycle\<close> is non-zero, the
  thread reaches a first transmitting cycle (every earlier cycle slept or had a data
  point without a valid position, and a run-once thread did not exit in one of them),
  the tick counter has not
  wrapped past the start of the thread when that cycle tests the elapsed time (the ticks
  since the start plus \<^verbatim>\<open>tel_enc_cycle\<close> stay below \<open>2 ^ 32\<close>), and the encoder returns a
  packet for each of the four configuration requests of that cycle: the first four
  packets the thread hands to the radio are the four telemetry-configuration packets,
  types 0 to 3 in order, so they precede every position packet.
\<close>

theorem config_group_first:
  assumes "tel_enc_cycle sram \<noteq> 0"
    and "\<forall>x\<in>set pre. sleeping x \<or> position_refused valid (snapshot x)"
    and "run_once conf \<longrightarrow> (\<forall>x\<in>set pre. \<not> sleeping x)"
    and "\<not> sleeping e" and "snapshot e = Some dp" and "valid dp"
    and "unat (now e - t0) + unat (tel_enc_cycle sram) < 2 ^ 32"
    and "conf_packet e 0 \<and> conf_packet e 1 \<and> conf_packet e 2 \<and> conf_packet e 3"
  shows "take 4 (transmitted (bcnThread valid f conf sram t0 t1 t2 (pre @ e # post))) =
       [Telemetry_configuration (call conf) (path conf) (call conf) 0,
        Telemetry_configuration (call conf) (path conf) (call conf) 1,
        Telemetry_configuration (call conf) (path conf) (call conf) 2,
        Telemetry_configuration (call conf) (path conf) (call conf) 3]"
proof -
  let ?st = "\<lparr>last_conf_transmission = t0 - tel_enc_cycle sram, time = t1\<rparr>"
  obtain evs st1 where
    r: "bcn_loop valid f conf sram ?st (pre @ e # post) =
          evs @ bcn_loop valid f conf sram st1 (e # post)"
    and q: "transmitted evs = []"
    and l: "last_conf_transmission st1 = t0 - tel_enc_cycle sram"
    using quiet_prefix [where f = f and sram = sram and st = ?st and rest = "e # post"
        and valid = valid and pre = pre and conf = conf, OF assms(2,3)] by auto
  have due: "tel_enc_cycle sram \<le> now e - last_conf_transmission st1"
    unfolding l using assms(7) by (rule elapsed_since_start)
  obtain more where
    m: "transmitted (fst (bcn_cycle valid f conf sram e st1)) =
       [Telemetry_configuration (call conf) (path conf) (call conf) 0,
        Telemetry_configuration (call conf) (path conf) (call conf) 1,
        Telemetry_configuration (call conf) (path conf) (call conf) 2,
        Telemetry_configuration (call conf) (path conf) (call conf) 3] @ more"
    using transmitted_due_cycle [where f = f and conf = conf and valid = valid and dp = dp
        and e = e and sram = sram and st = st1, OF assms(4,5,6,1) due assms(8)]
    by auto
  obtain cev st2 nxt where c: "bcn_cycle valid f conf sram e st1 = (cev, st2, nxt)"
    by (cases "bcn_cycle valid f conf sram e st1") auto
  have "\<exists>tl. transmitted (bcn_loop valid f conf sram st1 (e # post)) = transmitted cev @ tl"
    using c by (cases nxt) (simp_all add: transmitted_append)
  then obtain tl where
    "transmitted (bcn_loop valid f conf sram st1 (e # post)) = transmitted cev @ tl" ..
  with m c r q show ?thesis
    by (simp add: bcnThread_def transmitted_append)
qed

text \<open>
  A boot of the default beacon: one cycle without a GPS fix, then the first
  transmitting cycle 120 seconds after the start, then one more.
\<close>

theorem config_group_first_witness:
  "take 4 (transmitted (bcnThread hasGPSacquiredLock 10000 (demo_conf False)
      (demo_sram 108000000 False) 0 0 0
      [demo_env GPS_LOSS 600000 True True, demo_env GPS_LOCKED1 1200000 True True,
       demo_env GPS_LOCKED1 2400000 True True])) =
     [Telemetry_configuration ''DL7AD-12'' ''WIDE1-1'' ''DL7AD-12'' 0,
      Telemetry_configuration ''DL7AD-12'' ''WIDE1-1'' ''DL7AD-12'' 1,
      Telemetry_configuration ''DL7AD-12'' ''WIDE1-1'' ''DL7AD-12'' 2,
      Telemetry_configuration ''DL7AD-12'' ''WIDE1-1'' ''DL7AD-12'' 3]"
  using config_group_first [of "demo_sram 108000000 False"
      "[demo_env GPS_LOSS 600000 True True]" hasGPSacquiredLock "demo_conf False"
      "demo_env GPS_LOCKED1 1200000 True True" "demo_point 1 GPS_LOCKED1" 0 10000 0 0
      "[demo_env GPS_LOCKED1 2400000 True True]"]
  by (simp add: demo_defs position_refused_def hasGPSacquiredLock_def)

text \<open>
  The claim as stated fails, with \<^verbatim>\<open>tel_enc_cycle\<close> non-zero (10800 s at 10000 ticks
  per second). In the first run the GPS has no fix at first, and the first transmitting
  cycle comes \<open>2 ^ 32 - 108000000\<close> ticks after the start: the elapsed time has wrapped
  to 0, the test fails and the position packet is the first packet on the radio. In the second run the test succeeds
  but the encoder returns no configuration packet, and again the position packet is the
  first packet on the radio.
\<close>

theorem config_group_first_counterexample:
  "tel_enc_cycle (demo_sram 108000000 False) \<noteq> 0
   \<and> transmitted (bcnThread hasGPSacquiredLock 10000 (demo_conf False)
        (demo_sram 108000000 False) 0 0 0
        [demo_env GPS_LOSS 600000 True True, demo_env GPS_LOCKED1 4186967296 True True]) =
      [Position_and_telemetry ''DL7AD-12'' ''WIDE1-1'' SYM_BALLOON (demo_point 1 GPS_LOCKED1) True,
       Aprsd_message ''DL7AD-12'' ''WIDE1-1'' ''DL7AD-12'' False]
   \<and> transmitted (bcnThread hasGPSacquiredLock 10000 (demo_conf False)
        (demo_sram 108000000 False) 0 0 0 [demo_env GPS_LOCKED1 1200000 False True]) =
      [Position_and_telemetry ''DL7AD-12'' ''WIDE1-1'' SYM_BALLOON (demo_point 1 GPS_LOCKED1) True,
       Aprsd_message ''DL7AD-12'' ''WIDE1-1'' ''DL7AD-12'' False]"
  by (simp add: run_defs demo_defs tx_simps)

subsection \<open>A telemetry-configuration cycle of zero\<close>

lemma telemetry_config_off:
  "tel_enc_cycle sram = 0 \<Longrightarrow> bcn_telemetry_config f conf sram e st = ([], st)"
  by (simp add: bcn_telemetry_config_def)

lemma cycle_off:
  assumes "tel_enc_cycle sram = 0"
  shows "filter is_telemetry_configuration
           (transmitted (fst (bcn_cycle valid f conf sram e st))) = []"
  using assms
  by (auto simp: bcn_cycle_def bcn_wait_for_position_def bcn_null_dataPoint_def
        telemetry_config_off transmitted_append transmitted_position transmitted_aprsd
        transmitted_end is_telemetry_configuration_def bcn_end_of_cycle_def
      split: option.splits prod.splits)

lemma loop_off:
  assumes "tel_enc_cycle sram = 0"
  shows "filter is_telemetry_configuration
           (transmitted (bcn_loop valid f conf sram st envs)) = []"
proof (induction envs arbitrary: st)
  case Nil
  show ?case by simp
next
  case (Cons e es)
  obtain evs st1 nxt where c: "bcn_cycle valid f conf sram e st = (evs, st1, nxt)"
    by (cases "bcn_cycle valid f conf sram e st") auto
  have "filter is_telemetry_configuration (transmitted evs) = []"
    using cycle_off [OF assms, of valid f conf e st] c by simp
  then show ?case
    using c Cons.IH [of st1] by (cases nxt) (simp_all add: transmitted_append)
qed

text \<open>
  C9. If \<^verbatim>\<open>conf_sram.tel_enc_cycle\<close> is zero, no telemetry-configuration packet is handed
  to the radio in any cycle of any run of the thread, and every cycle that is not
  sleeping and has a valid position consists of the snapshot request, the position
  block, the APRSD block and the end of the cycle, as it does otherwise.
\<close>

theorem no_telemetry_config_when_cycle_zero:
  assumes "tel_enc_cycle sram = 0"
  shows "filter is_telemetry_configuration
           (transmitted (bcnThread valid f conf sram t0 t1 t2 envs)) = []
    \<and> (\<not> sleeping e \<and> snapshot e = Some dp \<and> valid dp \<longrightarrow>
         fst (bcn_cycle valid f conf sram e st) =
           [Trace Do_module_BEACON_cycle, MsgSend] @ bcn_position f conf e dp
           @ bcn_aprsd f conf sram e @ fst (bcn_end_of_cycle conf e st))"
proof -
  have "filter is_telemetry_configuration
          (transmitted (bcnThread valid f conf sram t0 t1 t2 envs)) = []"
    using loop_off [OF assms] by (simp add: bcnThread_def transmitted_append)
  moreover have "fst (bcn_cycle valid f conf sram e st) =
           [Trace Do_module_BEACON_cycle, MsgSend] @ bcn_position f conf e dp
           @ bcn_aprsd f conf sram e @ fst (bcn_end_of_cycle conf e st)"
    if "\<not> sleeping e" and "snapshot e = Some dp" and "valid dp"
    using that assms
    by (simp add: bcn_cycle_def telemetry_config_off split: prod.splits)
  ultimately show ?thesis by blast
qed

text \<open>Two cycles with a cycle of zero: position and APRSD message each time.\<close>

theorem no_telemetry_config_when_cycle_zero_witness:
  "transmitted (bcnThread hasGPSacquiredLock 10000 (demo_conf False) (demo_sram 0 False) 0 0 0
      [demo_env GPS_LOCKED1 1200000 True True, demo_env GPS_LOCKED2 2400000 True True]) =
     [Position_and_telemetry ''DL7AD-12'' ''WIDE1-1'' SYM_BALLOON (demo_point 1 GPS_LOCKED1) True,
      Aprsd_message ''DL7AD-12'' ''WIDE1-1'' ''DL7AD-12'' False,
      Position_and_telemetry ''DL7AD-12'' ''WIDE1-1'' SYM_BALLOON (demo_point 1 GPS_LOCKED2) True,
      Aprsd_message ''DL7AD-12'' ''WIDE1-1'' ''DL7AD-12'' False]
   \<and> filter is_telemetry_configuration
       (transmitted (bcnThread hasGPSacquiredLock 10000 (demo_conf False) (demo_sram 0 False)
          0 0 0 [demo_env GPS_LOCKED1 1200000 True True, demo_env GPS_LOCKED2 2400000 True True]))
     = []"
proof -
  have z: "tel_enc_cycle (demo_sram 0 False) = 0" by (simp add: demo_sram_def)
  have "filter is_telemetry_configuration
       (transmitted (bcnThread hasGPSacquiredLock 10000 (demo_conf False) (demo_sram 0 False)
          0 0 0 [demo_env GPS_LOCKED1 1200000 True True, demo_env GPS_LOCKED2 2400000 True True]))
     = []"
    using no_telemetry_config_when_cycle_zero [OF z] by blast
  moreover have "transmitted (bcnThread hasGPSacquiredLock 10000 (demo_conf False)
      (demo_sram 0 False) 0 0 0
      [demo_env GPS_LOCKED1 1200000 True True, demo_env GPS_LOCKED2 2400000 True True]) =
     [Position_and_telemetry ''DL7AD-12'' ''WIDE1-1'' SYM_BALLOON (demo_point 1 GPS_LOCKED1) True,
      Aprsd_message ''DL7AD-12'' ''WIDE1-1'' ''DL7AD-12'' False,
      Position_and_telemetry ''DL7AD-12'' ''WIDE1-1'' SYM_BALLOON (demo_point 1 GPS_LOCKED2) True,
      Aprsd_message ''DL7AD-12'' ''WIDE1-1'' ''DL7AD-12'' False]"
    by (simp add: run_defs demo_defs tx_simps)
  ultimately show ?thesis by simp
qed

subsection \<open>Cycles without a position\<close>

text \<open>Every position packet on the radio carries a data point that passed the test.\<close>

lemma positions_of_cycle:
  assumes "p \<in> set (transmitted (fst (bcn_cycle valid f conf sram e st)))"
    and "carries_position p dp"
  shows "valid dp"
proof (cases "sleeping e \<or> snapshot e = None \<or> position_refused valid (snapshot e)")
  case True
  then have "transmitted (fst (bcn_cycle valid f conf sram e st)) = []"
    by (auto simp: bcn_cycle_def bcn_wait_for_position_def bcn_end_of_cycle_def
          bcn_null_dataPoint_def position_refused_def
        split: option.splits)
  with assms show ?thesis by simp
next
  case False
  then obtain d where d: "snapshot e = Some d" "valid d" "\<not> sleeping e"
    by (auto simp: position_refused_def split: option.splits)
  then have "transmitted (fst (bcn_cycle valid f conf sram e st)) =
      transmitted (fst (bcn_telemetry_config f conf sram e st))
      @ transmitted (bcn_position f conf e d) @ transmitted (bcn_aprsd f conf sram e)"
    by (simp add: bcn_cycle_def bcn_end_of_cycle_def transmitted_append split: prod.splits)
  moreover have "q \<in> set (transmitted (fst (bcn_telemetry_config f conf sram e st)))
      \<Longrightarrow> \<not> carries_position q dp" for q
    by (auto simp: bcn_telemetry_config_def tx_simps carries_position_def split: if_splits)
  ultimately show ?thesis
    using assms d
    by (auto simp: transmitted_position transmitted_aprsd carries_position_def
        split: if_splits)
qed

lemma positions_of_loop:
  assumes "p \<in> set (transmitted (bcn_loop valid f conf sram st envs))"
    and "carries_position p dp"
  shows "valid dp"
  using assms
proof (induction envs arbitrary: st)
  case Nil
  then show ?case by simp
next
  case (Cons e es)
  obtain evs st1 nxt where c: "bcn_cycle valid f conf sram e st = (evs, st1, nxt)"
    by (cases "bcn_cycle valid f conf sram e st") auto
  have here: "p \<in> set (transmitted evs) \<Longrightarrow> valid dp"
    using positions_of_cycle [of p valid f conf sram e st dp] c Cons.prems(2) by simp
  show ?case
  proof (cases nxt)
    case Next_cycle
    with c Cons.prems(1) have "p \<in> set (transmitted evs)
        \<or> p \<in> set (transmitted (bcn_loop valid f conf sram st1 es))"
      by (simp add: transmitted_append)
    then show ?thesis using here Cons.IH [of st1] Cons.prems(2) by blast
  next
    case Exited
    with c Cons.prems(1) have "p \<in> set (transmitted evs)" by simp
    then show ?thesis by (rule here)
  next
    case Faulted
    with c Cons.prems(1) have "p \<in> set (transmitted evs)" by simp
    then show ?thesis by (rule here)
  qed
qed

text \<open>
  A \<^verbatim>\<open>NULL\<close> reply to a thread that is not sleeping: the data point is read through
  \<^verbatim>\<open>NULL\<close>, with no trace line and no sleep, and the thread ends there.
\<close>

lemma null_reply_is_read:
  assumes "\<not> sleeping e" and "snapshot e = None"
  shows "bcn_cycle valid f conf sram e st =
    ([Trace Do_module_BEACON_cycle, MsgSend, Null_dereference], st, Faulted)"
  using assms by (simp add: bcn_cycle_def bcn_null_dataPoint_def)

text \<open>
  C4, as amended. In a beacon cycle whose snapshot is a data point that
  \<^verbatim>\<open>isPositionValid\<close> refuses, nothing is handed to the radio. When the sleep condition
  is not met, the cycle is exactly the snapshot request, the trace line, a sleep of 60
  seconds and the start of the next pass, which requests a fresh snapshot. When the
  sleep condition is met, the thread does not look at the snapshot and the cycle ends
  as every sleeping cycle does, with the exit of a run-once thread or the wait for the
  next trigger, and without the sleep of 60 seconds. In any run, a position packet on
  the radio carries a data point that \<^verbatim>\<open>isPositionValid\<close> accepted, so none is derived
  from an invalid fix. (What follows a \<^verbatim>\<open>NULL\<close> snapshot is not part of the statement.)
\<close>

theorem no_packet_without_position:
  "(position_refused valid (snapshot e) \<longrightarrow>
      transmitted (fst (bcn_cycle valid f conf sram e st)) = []
      \<and> (\<not> sleeping e \<longrightarrow>
           bcn_cycle valid f conf sram e st =
             ([Trace Do_module_BEACON_cycle, MsgSend, Trace Waiting_for_position_data,
               ThdSleep (TIME_S2I f 60)], st, Next_cycle))
      \<and> (sleeping e \<longrightarrow>
           bcn_cycle valid f conf sram e st =
             (if run_once conf
              then ([Trace Do_module_BEACON_cycle, MsgSend, ThdExit], st, Exited)
              else ([Trace Do_module_BEACON_cycle, MsgSend,
                     WaitForTrigger (time st) (cycle (beacon conf))],
                    st\<lparr>time := trigger e\<rparr>, Next_cycle))))
   \<and> (p \<in> set (transmitted (bcnThread valid f conf sram t0 t1 t2 envs))
        \<and> carries_position p dp \<longrightarrow> valid dp)"
proof -
  have "transmitted (fst (bcn_cycle valid f conf sram e st)) = []
      \<and> (\<not> sleeping e \<longrightarrow>
           bcn_cycle valid f conf sram e st =
             ([Trace Do_module_BEACON_cycle, MsgSend, Trace Waiting_for_position_data,
               ThdSleep (TIME_S2I f 60)], st, Next_cycle))
      \<and> (sleeping e \<longrightarrow>
           bcn_cycle valid f conf sram e st =
             (if run_once conf
              then ([Trace Do_module_BEACON_cycle, MsgSend, ThdExit], st, Exited)
              else ([Trace Do_module_BEACON_cycle, MsgSend,
                     WaitForTrigger (time st) (cycle (beacon conf))],
                    st\<lparr>time := trigger e\<rparr>, Next_cycle)))"
    if "position_refused valid (snapshot e)"
    using that
    by (auto simp: bcn_cycle_def bcn_wait_for_position_def bcn_end_of_cycle_def
          position_refused_def
        split: option.splits)
  moreover have "valid dp"
    if "p \<in> set (transmitted (bcnThread valid f conf sram t0 t1 t2 envs))"
      and "carries_position p dp"
    using that positions_of_loop [of p valid f conf sram _ envs dp]
    by (simp add: bcnThread_def)
  ultimately show ?thesis by blast
qed

text \<open>
  A cycle whose snapshot has lost the GPS: awake, the wait of 60 seconds and no
  packet; asleep, the wait for the trigger and no packet.
\<close>

theorem no_packet_without_position_witness:
  "position_refused hasGPSacquiredLock (snapshot (demo_env GPS_LOSS 1200000 True True))
   \<and> bcn_cycle hasGPSacquiredLock 10000 (demo_conf False) (demo_sram 108000000 False)
       (demo_env GPS_LOSS 1200000 True True)
       \<lparr>last_conf_transmission = 0 - 108000000, time = 0\<rparr> =
     ([Trace Do_module_BEACON_cycle, MsgSend, Trace Waiting_for_position_data,
       ThdSleep 600000], \<lparr>last_conf_transmission = 0 - 108000000, time = 0\<rparr>, Next_cycle)
   \<and> transmitted (fst (bcn_cycle hasGPSacquiredLock 10000 (demo_conf False)
       (demo_sram 108000000 False) (demo_env GPS_LOSS 1200000 True True)
       \<lparr>last_conf_transmission = 0 - 108000000, time = 0\<rparr>)) = []
   \<and> transmitted (fst (bcn_cycle hasGPSacquiredLock 10000 (demo_conf False)
       (demo_sram 108000000 False) ((demo_env GPS_LOSS 1200000 True True)\<lparr>sleeping := True\<rparr>)
       \<lparr>last_conf_transmission = 0 - 108000000, time = 0\<rparr>)) = []"
proof -
  have n: "position_refused hasGPSacquiredLock (snapshot (demo_env GPS_LOSS 1200000 True True))"
    by (simp add: position_refused_def demo_env_def demo_point_def hasGPSacquiredLock_def)
  have s: "\<not> sleeping (demo_env GPS_LOSS 1200000 True True)"
    by (simp add: demo_env_def)
  have n': "position_refused hasGPSacquiredLock
      (snapshot ((demo_env GPS_LOSS 1200000 True True)\<lparr>sleeping := True\<rparr>))"
    by (simp add: position_refused_def demo_env_def demo_point_def hasGPSacquiredLock_def)
  show ?thesis
    using n s no_packet_without_position [of hasGPSacquiredLock
        "demo_env GPS_LOSS 1200000 True True" 10000 "demo_conf False"
        "demo_sram 108000000 False" "\<lparr>last_conf_transmission = 0 - 108000000, time = 0\<rparr>"]
      n' no_packet_without_position [of hasGPSacquiredLock
        "(demo_env GPS_LOSS 1200000 True True)\<lparr>sleeping := True\<rparr>" 10000 "demo_conf False"
        "demo_sram 108000000 False" "\<lparr>last_conf_transmission = 0 - 108000000, time = 0\<rparr>"]
    by (simp add: TIME_S2I_def)
qed

text \<open>
  The claim as stated fails: in a cycle whose snapshot has lost the GPS while the sleep
  condition is met, the thread does not wait 60 seconds and does not request a fresh
  snapshot at once; it waits for the next cycle trigger.
\<close>

theorem no_packet_without_position_counterexample:
  "sleeping ((demo_env GPS_LOSS 1200000 True True)\<lparr>sleeping := True\<rparr>)
   \<and> position_refused hasGPSacquiredLock
        (snapshot ((demo_env GPS_LOSS 1200000 True True)\<lparr>sleeping := True\<rparr>))
   \<and> bcn_cycle hasGPSacquiredLock 10000 (demo_conf False) (demo_sram 108000000 False)
       ((demo_env GPS_LOSS 1200000 True True)\<lparr>sleeping := True\<rparr>)
       \<lparr>last_conf_transmission = 0 - 108000000, time = 0\<rparr> =
     ([Trace Do_module_BEACON_cycle, MsgSend, WaitForTrigger 0 1200000],
      \<lparr>last_conf_transmission = 0 - 108000000, time = 1200000\<rparr>, Next_cycle)"
  by (simp add: run_defs demo_defs position_refused_def TIME_S2I_def)

subsection \<open>The address of the APRSD message\<close>

lemma aprsd_of_cycle:
  assumes "p \<in> set (transmitted (fst (bcn_cycle valid f conf sram e st)))"
    and "is_aprsd_message p"
  shows "p = aprsd_packet_of conf sram"
proof (cases "sleeping e \<or> snapshot e = None \<or> position_refused valid (snapshot e)")
  case True
  then have "transmitted (fst (bcn_cycle valid f conf sram e st)) = []"
    by (auto simp: bcn_cycle_def bcn_wait_for_position_def bcn_end_of_cycle_def
          bcn_null_dataPoint_def position_refused_def
        split: option.splits)
  with assms show ?thesis by simp
next
  case False
  then obtain d where d: "snapshot e = Some d" "valid d" "\<not> sleeping e"
    by (auto simp: position_refused_def split: option.splits)
  then have "transmitted (fst (bcn_cycle valid f conf sram e st)) =
      transmitted (fst (bcn_telemetry_config f conf sram e st))
      @ transmitted (bcn_position f conf e d) @ transmitted (bcn_aprsd f conf sram e)"
    by (simp add: bcn_cycle_def bcn_end_of_cycle_def transmitted_append split: prod.splits)
  moreover have "q \<in> set (transmitted (fst (bcn_telemetry_config f conf sram e st)))
      \<Longrightarrow> \<not> is_aprsd_message q" for q
    by (auto simp: bcn_telemetry_config_def tx_simps is_aprsd_message_def split: if_splits)
  ultimately show ?thesis
    using assms
    by (auto simp: transmitted_position transmitted_aprsd is_aprsd_message_def
          aprsd_packet_of_def split: if_splits)
qed

lemma aprsd_of_loop:
  assumes "p \<in> set (transmitted (bcn_loop valid f conf sram st envs))"
    and "is_aprsd_message p"
  shows "p = aprsd_packet_of conf sram"
  using assms
proof (induction envs arbitrary: st)
  case Nil
  then show ?case by simp
next
  case (Cons e es)
  obtain evs st1 nxt where c: "bcn_cycle valid f conf sram e st = (evs, st1, nxt)"
    by (cases "bcn_cycle valid f conf sram e st") auto
  have here: "p \<in> set (transmitted evs) \<Longrightarrow> p = aprsd_packet_of conf sram"
    using aprsd_of_cycle [of p valid f conf sram e st] c Cons.prems(2) by simp
  show ?case
  proof (cases nxt)
    case Next_cycle
    with c Cons.prems(1) have "p \<in> set (transmitted evs)
        \<or> p \<in> set (transmitted (bcn_loop valid f conf sram st1 es))"
      by (simp add: transmitted_append)
    then show ?thesis using here Cons.IH [of st1] Cons.prems(2) by blast
  next
    case Exited
    with c Cons.prems(1) have "p \<in> set (transmitted evs)" by simp
    then show ?thesis by (rule here)
  next
    case Faulted
    with c Cons.prems(1) have "p \<in> set (transmitted evs)" by simp
    then show ?thesis by (rule here)
  qed
qed

text \<open>
  C7. Every APRSD message the thread hands to the radio is from the beacon's own call
  sign, requests no acknowledgment, and is addressed to the call sign and path of the
  base station when the base configuration is enabled and to the beacon's own call sign
  and path otherwise; in a transmitting cycle for which the composer returns a packet
  it is the last packet of the cycle.
\<close>

theorem aprsd_addressing:
  "(p \<in> set (transmitted (bcnThread valid f conf sram t0 t1 t2 envs)) \<and> is_aprsd_message p
      \<longrightarrow> p = Aprsd_message (call conf)
                 (if enabled (base sram) then base_conf_t.path (base sram) else path conf)
                 (if enabled (base sram) then base_conf_t.call (base sram) else call conf)
                 False)
   \<and> (\<not> sleeping e \<and> snapshot e = Some dp \<and> valid dp \<and> aprsd_packet e
      \<longrightarrow> transmitted (fst (bcn_cycle valid f conf sram e st)) =
            transmitted (fst (bcn_telemetry_config f conf sram e st))
            @ transmitted (bcn_position f conf e dp)
            @ [Aprsd_message (call conf)
                 (if enabled (base sram) then base_conf_t.path (base sram) else path conf)
                 (if enabled (base sram) then base_conf_t.call (base sram) else call conf)
                 False])"
proof -
  have "p = aprsd_packet_of conf sram"
    if "p \<in> set (transmitted (bcnThread valid f conf sram t0 t1 t2 envs))"
      and "is_aprsd_message p"
    using that aprsd_of_loop [of p valid f conf sram _ envs]
    by (simp add: bcnThread_def)
  moreover have "transmitted (fst (bcn_cycle valid f conf sram e st)) =
            transmitted (fst (bcn_telemetry_config f conf sram e st))
            @ transmitted (bcn_position f conf e dp) @ [aprsd_packet_of conf sram]"
    if "\<not> sleeping e" and "snapshot e = Some dp" and "valid dp" and "aprsd_packet e"
    using that
    by (simp add: bcn_cycle_def bcn_end_of_cycle_def transmitted_append transmitted_aprsd
          aprsd_packet_of_def split: prod.splits)
  ultimately show ?thesis
    unfolding aprsd_packet_of_def by blast
qed

text \<open>The same cycle with the base station enabled and disabled.\<close>

theorem aprsd_addressing_witness:
  "transmitted (bcnThread hasGPSacquiredLock 10000 (demo_conf True) (demo_sram 0 True) 0 0 0
      [demo_env GPS_LOCKED1 1200000 True True]) =
     [Position_and_telemetry ''DL7AD-12'' ''WIDE1-1'' SYM_BALLOON (demo_point 1 GPS_LOCKED1) True,
      Aprsd_message ''DL7AD-12'' ''WIDE2-1'' ''DL7AD-1'' False]
   \<and> transmitted (bcnThread hasGPSacquiredLock 10000 (demo_conf True) (demo_sram 0 False) 0 0 0
      [demo_env GPS_LOCKED1 1200000 True True]) =
     [Position_and_telemetry ''DL7AD-12'' ''WIDE1-1'' SYM_BALLOON (demo_point 1 GPS_LOCKED1) True,
      Aprsd_message ''DL7AD-12'' ''WIDE1-1'' ''DL7AD-12'' False]"
proof -
  have a: "transmitted (bcnThread hasGPSacquiredLock 10000 (demo_conf True) (demo_sram 0 True)
      0 0 0 [demo_env GPS_LOCKED1 1200000 True True]) =
     [Position_and_telemetry ''DL7AD-12'' ''WIDE1-1'' SYM_BALLOON (demo_point 1 GPS_LOCKED1) True,
      aprsd_packet_of (demo_conf True) (demo_sram 0 True)]"
    by (simp add: run_defs demo_defs tx_simps aprsd_packet_of_def)
  have b: "transmitted (bcnThread hasGPSacquiredLock 10000 (demo_conf True) (demo_sram 0 False)
      0 0 0 [demo_env GPS_LOCKED1 1200000 True True]) =
     [Position_and_telemetry ''DL7AD-12'' ''WIDE1-1'' SYM_BALLOON (demo_point 1 GPS_LOCKED1) True,
      aprsd_packet_of (demo_conf True) (demo_sram 0 False)]"
    by (simp add: run_defs demo_defs tx_simps aprsd_packet_of_def)
  have m: "is_aprsd_message (aprsd_packet_of c s)" for c s
    by (simp add: is_aprsd_message_def aprsd_packet_of_def)
  have "aprsd_packet_of (demo_conf True) (demo_sram 0 True) =
      Aprsd_message ''DL7AD-12'' ''WIDE2-1'' ''DL7AD-1'' False"
    using aprsd_addressing [of "aprsd_packet_of (demo_conf True) (demo_sram 0 True)"
        hasGPSacquiredLock 10000 "demo_conf True" "demo_sram 0 True" 0 0 0
        "[demo_env GPS_LOCKED1 1200000 True True]"] a m
    by (simp add: demo_defs)
  moreover have "aprsd_packet_of (demo_conf True) (demo_sram 0 False) =
      Aprsd_message ''DL7AD-12'' ''WIDE1-1'' ''DL7AD-12'' False"
    using aprsd_addressing [of "aprsd_packet_of (demo_conf True) (demo_sram 0 False)"
        hasGPSacquiredLock 10000 "demo_conf True" "demo_sram 0 False" 0 0 0
        "[demo_env GPS_LOCKED1 1200000 True True]"] b m
    by (simp add: demo_defs)
  ultimately show ?thesis using a b by simp
qed

end
